theory Spec2Isabelle
  imports Complex_Main
begin

section \<open>Errors and the dense-matrix collaborator\<close>

text \<open>
  The repository is built with assertions enabled. A failed \<^verbatim>\<open>assert\<close> of the
  repository's own code is \<open>InvalidArgument\<close>; a failed range assertion of the matrix
  library (coefficient access or block view outside the matrix) is \<open>OutOfBounds\<close>.
  Either one ends the call, so a failing operation returns the error and no state. The
  argument checks of \<^verbatim>\<open>run\<close> are the exception: they also return what the caller's
  Schur-form matrix holds when they fail.
\<close>

datatype error = InvalidArgument | OutOfBounds

definition bindE :: "error + 'a \<Rightarrow> ('a \<Rightarrow> error + 'b) \<Rightarrow> error + 'b" where
  "bindE x f = (case x of Inl e \<Rightarrow> Inl e | Inr y \<Rightarrow> f y)"

text \<open>
  A dynamic matrix is its two dimensions and its coefficients. Indices are signed, as in
  the source (\<^verbatim>\<open>int\<close>); only \<open>get_coeff\<close>, \<open>set_coeff\<close> and \<open>block\<close> read or write
  coefficients, and each checks its range the way the library's assertions do.
  The template parameter \<^verbatim>\<open>Scalar\<close> is a type variable; its arithmetic is exact
  (an ordered commutative ring), so rounding is outside this model.
\<close>

record 'a matrix =
  rows :: int
  cols :: int
  coeff :: "int \<Rightarrow> int \<Rightarrow> 'a"

text \<open>\<^verbatim>\<open>m(i, j)\<close> as an rvalue.\<close>

definition get_coeff :: "'a matrix \<Rightarrow> int \<Rightarrow> int \<Rightarrow> error + 'a" where
  "get_coeff m i j =
     (if 0 \<le> i \<and> i < rows m \<and> 0 \<le> j \<and> j < cols m then Inr (coeff m i j)
      else Inl OutOfBounds)"

text \<open>\<^verbatim>\<open>m(i, j) = v\<close>.\<close>

definition set_coeff :: "'a matrix \<Rightarrow> int \<Rightarrow> int \<Rightarrow> 'a \<Rightarrow> error + 'a matrix" where
  "set_coeff m i j v =
     (if 0 \<le> i \<and> i < rows m \<and> 0 \<le> j \<and> j < cols m
      then Inr (m\<lparr>coeff := \<lambda>r c. if r = i \<and> c = j then v else coeff m r c\<rparr>)
      else Inl OutOfBounds)"

text \<open>The matrix that \<^verbatim>\<open>m(i, j) = 0\<close> leaves when \<open>(i, j)\<close> is in range.\<close>

definition zeroed :: "'a::zero matrix \<Rightarrow> int \<Rightarrow> int \<Rightarrow> 'a matrix" where
  "zeroed m i j = m\<lparr>coeff := \<lambda>r c. if r = i \<and> c = j then 0 else coeff m r c\<rparr>"

text \<open>\<^verbatim>\<open>m.block(r, c, nr, nc)\<close> read as a value: the coefficients the view shows.\<close>

definition block :: "'a matrix \<Rightarrow> int \<Rightarrow> int \<Rightarrow> int \<Rightarrow> int \<Rightarrow> error + 'a matrix" where
  "block m r c nr nc =
     (if 0 \<le> r \<and> 0 \<le> nr \<and> r \<le> rows m - nr \<and> 0 \<le> c \<and> 0 \<le> nc \<and> c \<le> cols m - nc
      then Inr \<lparr>rows = nr, cols = nc, coeff = \<lambda>i j. coeff m (r + i) (c + j)\<rparr>
      else Inl OutOfBounds)"

text \<open>
  Writing through the view: the coefficients inside the view's rectangle are taken from
  the new contents, every other coefficient of the owner stays as it is.
\<close>

definition write_block :: "'a matrix \<Rightarrow> int \<Rightarrow> int \<Rightarrow> int \<Rightarrow> int \<Rightarrow> 'a matrix \<Rightarrow> 'a matrix" where
  "write_block m r c nr nc b =
     m\<lparr>coeff := \<lambda>i j. if r \<le> i \<and> i < r + nr \<and> c \<le> j \<and> j < c + nc
                       then coeff b (i - r) (j - c) else coeff m i j\<rparr>"

text \<open>
  \<^verbatim>\<open>f(m.block(r, c, nr, nc))\<close> for an \<open>f\<close> that overwrites the view it is given in place.
\<close>

definition in_block ::
  "'a matrix \<Rightarrow> int \<Rightarrow> int \<Rightarrow> int \<Rightarrow> int \<Rightarrow> ('a matrix \<Rightarrow> error + 'a matrix) \<Rightarrow> error + 'a matrix" where
  "in_block m r c nr nc f =
     bindE (block m r c nr nc) (\<lambda>b. bindE (f b) (\<lambda>b'. Inr (write_block m r c nr nc b')))"

text \<open>A block of one column converted to a vector (\<^verbatim>\<open>DynamicVector\<close>, \<^verbatim>\<open>Vector3\<close>).\<close>

definition col_vector :: "'a matrix \<Rightarrow> 'a list" where
  "col_vector b = map (\<lambda>i. coeff b (int i) 0) [0..<nat (rows b)]"

section \<open>The decomposition object and the absent collaborators\<close>

text \<open>
  The fields of \<^verbatim>\<open>SchurDecomposition\<close> (\<^verbatim>\<open>precision_\<close>, \<^verbatim>\<open>p_schur_form_\<close>,
  \<^verbatim>\<open>p_unitary_\<close>, \<^verbatim>\<open>cur_size_\<close>, written here without the trailing underscore). The two
  pointer fields are modelled by the matrices they point to, two distinct objects of the
  caller. \<^verbatim>\<open>cur_size_\<close> and the loop counters are \<^verbatim>\<open>int\<close>; they stay between -1 and the
  matrix size, far from the bounds of the type, and are unbounded integers here.

  The repository has two versions of the class. The one in
  \<^verbatim>\<open>schur_decomposition/schur_decomposition.h\<close> tests against an absolute threshold; the
  other (the header with the include guard) tests against a relative one. Members that
  differ between them carry the suffix \<open>_abs\<close> or \<open>_rel\<close> where their names coincide.
\<close>

record 'a schur_decomposition =
  precision :: 'a
  p_schur_form :: "'a matrix"
  p_unitary :: "'a matrix"
  cur_size :: int

text \<open>
  The Householder reflector and the Hessenberg reduction are used by both versions and
  defined in headers that are not among the sources; they are parameters. \<open>'r\<close> is the reflector object. \<open>reflect_left\<close> and
  \<open>reflect_right\<close> receive the contents of the view and return its new contents.
\<close>

record ('a, 'r) externals =
  Reflector :: "'a list \<Rightarrow> error + 'r"
  reflect_left :: "'r \<Rightarrow> 'a matrix \<Rightarrow> error + 'a matrix"
  reflect_right :: "'r \<Rightarrow> 'a matrix \<Rightarrow> error + 'a matrix"
  hessenberg_run :: "'a matrix \<Rightarrow> 'a matrix \<Rightarrow> error + 'a matrix \<times> 'a matrix"

text \<open>
  How a call of \<^verbatim>\<open>run\<close> fails. \<open>Rejected e buf\<close>: an assertion on the arguments failed;
  \<open>buf\<close> is what the caller's Schur-form matrix holds at that moment (\<open>None\<close> when the
  pointer is null). \<open>Failed e\<close>: a later phase failed; the two matrices are then in the
  middle of an update and are not reported.
\<close>

datatype 'a failure = Rejected error "'a matrix option" | Failed error

definition later_phase :: "(error + 's) option \<Rightarrow> ('a failure + 's) option" where
  "later_phase r = map_option (\<lambda>x. case x of Inl e \<Rightarrow> Inl (Failed e) | Inr s \<Rightarrow> Inr s) r"

text \<open>\<^verbatim>\<open>size()\<close>, the same in both implementations.\<close>

definition size_schur :: "'a schur_decomposition \<Rightarrow> error + int" where
  "size_schur st =
     (if rows (p_schur_form st) = cols (p_schur_form st) then Inr (rows (p_schur_form st))
      else Inl InvalidArgument)"

definition find_bottom_corner_trace :: "'a::linordered_idom schur_decomposition \<Rightarrow> error + 'a" where
  "find_bottom_corner_trace st =
     bindE (block (p_schur_form st) (cur_size st - 1) (cur_size st - 1) 2 2)
       (\<lambda>b. Inr (coeff b 0 0 + coeff b 1 1))"

definition find_bottom_corner_det :: "'a::linordered_idom schur_decomposition \<Rightarrow> error + 'a" where
  "find_bottom_corner_det st =
     bindE (block (p_schur_form st) (cur_size st - 1) (cur_size st - 1) 2 2)
       (\<lambda>b. Inr (coeff b 0 0 * coeff b 1 1 - coeff b 0 1 * coeff b 1 0))"

definition reduce_to_hessenberg_form ::
  "('a, 'r) externals \<Rightarrow> 'a schur_decomposition \<Rightarrow> error + 'a schur_decomposition" where
  "reduce_to_hessenberg_form P st =
     bindE (hessenberg_run P (p_schur_form st) (p_unitary st))
       (\<lambda>(T, U). Inr (st\<lparr>p_schur_form := T, p_unitary := U\<rparr>))"

section \<open>The relative-threshold implementation\<close>

text \<open>
  \<^verbatim>\<open>zero_under_diagonal(index)\<close> reads three coefficients; each read is range-checked, and
  the order of the reads does not show in the result.
\<close>

definition zero_under_diagonal :: "'a::linordered_idom schur_decomposition \<Rightarrow> int \<Rightarrow> error + bool" where
  "zero_under_diagonal st index =
     bindE (get_coeff (p_schur_form st) index (index - 1)) (\<lambda>sub.
     bindE (get_coeff (p_schur_form st) index index) (\<lambda>d1.
     bindE (get_coeff (p_schur_form st) (index - 1) (index - 1)) (\<lambda>d2.
       Inr (\<bar>sub\<bar> < precision st * (\<bar>d1\<bar> + \<bar>d2\<bar>)))))"

definition decrement_cur_size ::
  "'a::linordered_idom schur_decomposition \<Rightarrow> int \<Rightarrow> error + 'a schur_decomposition" where
  "decrement_cur_size st decrement =
     bindE (set_coeff (p_schur_form st) (cur_size st + 1 - decrement) (cur_size st - decrement) 0)
       (\<lambda>m. Inr (st\<lparr>p_schur_form := m, cur_size := cur_size st - decrement\<rparr>))"

lemma bindE_simps [simp]:
  "bindE (Inl e) f = Inl e"
  "bindE (Inr y) f = f y"
  by (simp_all add: bindE_def)

lemma bindE_Inr_iff: "bindE x f = Inr z \<longleftrightarrow> (\<exists>y. x = Inr y \<and> f y = Inr z)"
  by (cases x) simp_all

lemma zero_under_diagonal_Inr_ge1:
  "zero_under_diagonal st i = Inr b \<Longrightarrow> 1 \<le> i"
  by (auto simp: zero_under_diagonal_def get_coeff_def bindE_Inr_iff split: if_splits)

lemma decrement_cur_size_cur:
  "decrement_cur_size st d = Inr st' \<Longrightarrow> cur_size st' = cur_size st - d"
  by (auto simp: decrement_cur_size_def bindE_Inr_iff)

text \<open>
  The loop of \<^verbatim>\<open>try_to_deflate\<close>: \<^verbatim>\<open>check_deflation\<close> stays true after a decrement, so the
  body runs again on the new state; it is cleared only when neither test fires. Each
  further round needs a successful read at \<open>cur_size\<close>, hence \<open>cur_size \<ge> 1\<close>, and lowers
  \<open>cur_size\<close>: the loop always ends.
\<close>

function try_to_deflate ::
  "'a::linordered_idom schur_decomposition \<Rightarrow> error + 'a schur_decomposition" where
  "try_to_deflate st =
     (case zero_under_diagonal st (cur_size st) of
        Inl e \<Rightarrow> Inl e
      | Inr b1 \<Rightarrow>
          if b1 then
            (case decrement_cur_size st 1 of
               Inl e \<Rightarrow> Inl e
             | Inr st' \<Rightarrow> try_to_deflate st')
          else
            (case zero_under_diagonal st (cur_size st - 1) of
               Inl e \<Rightarrow> Inl e
             | Inr b2 \<Rightarrow>
                 if b2 then
                   (case decrement_cur_size st 2 of
                      Inl e \<Rightarrow> Inl e
                    | Inr st' \<Rightarrow> try_to_deflate st')
                 else Inr st))"
  by pat_completeness auto
termination
proof (relation "measure (\<lambda>st. nat (cur_size st))")
  show "wf (measure (\<lambda>st::'a schur_decomposition. nat (cur_size st)))" by simp
next
  fix st :: "'a schur_decomposition" and b1 st'
  assume "zero_under_diagonal st (cur_size st) = Inr b1" "decrement_cur_size st 1 = Inr st'"
  then show "(st', st) \<in> measure (\<lambda>st. nat (cur_size st))"
    using zero_under_diagonal_Inr_ge1 decrement_cur_size_cur by fastforce
next
  fix st :: "'a schur_decomposition" and b1 b2 st'
  assume "zero_under_diagonal st (cur_size st) = Inr b1" "decrement_cur_size st 2 = Inr st'"
  then show "(st', st) \<in> measure (\<lambda>st. nat (cur_size st))"
    using zero_under_diagonal_Inr_ge1 decrement_cur_size_cur by fastforce
qed

declare try_to_deflate.simps [simp del]

text \<open>\<^verbatim>\<open>get_reflected_column(step, rows)\<close>.\<close>

definition get_reflected_column :: "'a schur_decomposition \<Rightarrow> int \<Rightarrow> int \<Rightarrow> error + 'a list" where
  "get_reflected_column st step nrows =
     bindE (block (p_schur_form st) (step + 1) step nrows 1) (\<lambda>b. Inr (col_vector b))"

text \<open>
  \<^verbatim>\<open>update_schur_form\<close> is two statements. The first applies the reflector from the
  left to \<^verbatim>\<open>block(step + 1, max(step, 0), length, size() - max(step, 0))\<close>.
\<close>

definition schur_reflect_left ::
  "('a, 'r) externals \<Rightarrow> 'r \<Rightarrow> int \<Rightarrow> int \<Rightarrow> 'a schur_decomposition \<Rightarrow> error + 'a schur_decomposition" where
  "schur_reflect_left P reflector step len st =
     bindE (size_schur st) (\<lambda>n.
     bindE (in_block (p_schur_form st) (step + 1) (max step 0) len (n - max step 0) (reflect_left P reflector))
       (\<lambda>m. Inr (st\<lparr>p_schur_form := m\<rparr>)))"

text \<open>
  The second applies it from the right to
  \<^verbatim>\<open>block(0, step + 1, min(cur_size_, step + 4) + 1, length)\<close>. The bulge chase of the
  absolute-threshold implementation has the same statement, with length 3.
\<close>

definition schur_reflect_right ::
  "('a, 'r) externals \<Rightarrow> 'r \<Rightarrow> int \<Rightarrow> int \<Rightarrow> 'a schur_decomposition \<Rightarrow> error + 'a schur_decomposition" where
  "schur_reflect_right P reflector step len st =
     bindE (in_block (p_schur_form st) 0 (step + 1) (min (cur_size st) (step + 4) + 1) len
              (reflect_right P reflector))
       (\<lambda>m. Inr (st\<lparr>p_schur_form := m\<rparr>))"

definition update_schur_form ::
  "('a, 'r) externals \<Rightarrow> 'r \<Rightarrow> int \<Rightarrow> int \<Rightarrow> 'a schur_decomposition \<Rightarrow> error + 'a schur_decomposition" where
  "update_schur_form P reflector step len st =
     bindE (schur_reflect_left P reflector step len st) (schur_reflect_right P reflector step len)"

definition update_unitary ::
  "('a, 'r) externals \<Rightarrow> 'r \<Rightarrow> int \<Rightarrow> int \<Rightarrow> 'a schur_decomposition \<Rightarrow> error + 'a schur_decomposition" where
  "update_unitary P reflector step len st =
     bindE (size_schur st) (\<lambda>n.
     bindE (in_block (p_unitary st) 0 (step + 1) n len (reflect_right P reflector))
       (\<lambda>u. Inr (st\<lparr>p_unitary := u\<rparr>)))"

definition find_matching_column :: "'a::linordered_idom schur_decomposition \<Rightarrow> error + 'a list" where
  "find_matching_column st =
     bindE (find_bottom_corner_trace st) (\<lambda>trace.
     bindE (find_bottom_corner_det st) (\<lambda>det.
     bindE (get_coeff (p_schur_form st) 0 0) (\<lambda>t00.
     bindE (get_coeff (p_schur_form st) 0 1) (\<lambda>t01.
     bindE (get_coeff (p_schur_form st) 1 0) (\<lambda>t10.
     bindE (get_coeff (p_schur_form st) 1 1) (\<lambda>t11.
     bindE (get_coeff (p_schur_form st) 2 1) (\<lambda>t21.
       Inr [t00 * t00 + t01 * t10 - trace * t00 + det,
            t10 * (t00 + t11 - trace),
            t10 * t21])))))))"

definition set_matching_column ::
  "('a::linordered_idom, 'r) externals \<Rightarrow> 'a schur_decomposition \<Rightarrow> error + 'a schur_decomposition" where
  "set_matching_column P st =
     bindE (find_matching_column st) (\<lambda>col.
     bindE (Reflector P col) (\<lambda>reflector.
     bindE (update_schur_form P reflector (- 1) 3 st) (update_unitary P reflector (- 1) 3)))"

text \<open>
  One reflector of \<^verbatim>\<open>restore_hessenberg_form\<close>: built from \<open>len\<close> entries of column
  \<open>step\<close>, applied to the Schur form and to the unitary matrix.
\<close>

definition restore_step ::
  "('a, 'r) externals \<Rightarrow> int \<Rightarrow> int \<Rightarrow> 'a schur_decomposition \<Rightarrow> error + 'a schur_decomposition" where
  "restore_step P step len st =
     bindE (get_reflected_column st step len) (\<lambda>col.
     bindE (Reflector P col) (\<lambda>reflector.
     bindE (update_schur_form P reflector step len st) (update_unitary P reflector step len)))"

lemma schur_reflect_left_cur_size:
  "schur_reflect_left P reflector step len st = Inr st' \<Longrightarrow> cur_size st' = cur_size st"
  by (auto simp: schur_reflect_left_def bindE_Inr_iff)

lemma schur_reflect_right_cur_size:
  "schur_reflect_right P reflector step len st = Inr st' \<Longrightarrow> cur_size st' = cur_size st"
  by (auto simp: schur_reflect_right_def bindE_Inr_iff)

lemma update_schur_form_cur_size:
  "update_schur_form P reflector step len st = Inr st' \<Longrightarrow> cur_size st' = cur_size st"
  by (auto simp: update_schur_form_def bindE_Inr_iff
      dest!: schur_reflect_left_cur_size schur_reflect_right_cur_size)

lemma update_unitary_cur_size:
  "update_unitary P reflector step len st = Inr st' \<Longrightarrow> cur_size st' = cur_size st"
  by (auto simp: update_unitary_def bindE_Inr_iff)

lemma restore_step_cur_size:
  "restore_step P step len st = Inr st' \<Longrightarrow> cur_size st' = cur_size st"
  by (auto simp: restore_step_def bindE_Inr_iff
      dest!: update_schur_form_cur_size update_unitary_cur_size)

text \<open>
  \<^verbatim>\<open>restore_hessenberg_form\<close>: the loop over \<open>step\<close> with reflectors of length 3, then
  the last reflector of length 2 at the step the loop stopped at.
\<close>

function restore_hessenberg_form_from ::
  "('a, 'r) externals \<Rightarrow> int \<Rightarrow> 'a schur_decomposition \<Rightarrow> error + 'a schur_decomposition" where
  "restore_hessenberg_form_from P step st =
     (if step \<le> cur_size st - 3 then
        (case restore_step P step 3 st of
           Inl e \<Rightarrow> Inl e
         | Inr st' \<Rightarrow> restore_hessenberg_form_from P (step + 1) st')
      else restore_step P step 2 st)"
  by pat_completeness auto
termination
  by (relation "measure (\<lambda>(P, step, st). nat (cur_size st - step))")
     (auto dest: restore_step_cur_size)

declare restore_hessenberg_form_from.simps [simp del]

definition restore_hessenberg_form ::
  "('a, 'r) externals \<Rightarrow> 'a schur_decomposition \<Rightarrow> error + 'a schur_decomposition" where
  "restore_hessenberg_form P st = restore_hessenberg_form_from P 0 st"

definition make_QR_iteration ::
  "('a::linordered_idom, 'r) externals \<Rightarrow> 'a schur_decomposition \<Rightarrow> error + 'a schur_decomposition" where
  "make_QR_iteration P st = bindE (set_matching_column P st) (restore_hessenberg_form P)"

text \<open>
  The \<^verbatim>\<open>while (cur_size_ >= 2)\<close> loop of \<^verbatim>\<open>run_QR_algorithm\<close>. Nothing bounds the
  number of sweeps, so not returning is the value \<open>None\<close>.
\<close>

partial_function (option) QR_loop_rel ::
  "('a::linordered_idom, 'r) externals \<Rightarrow> 'a schur_decomposition \<Rightarrow> (error + 'a schur_decomposition) option" where
  "QR_loop_rel P st =
     (if 2 \<le> cur_size st then
        (case bindE (make_QR_iteration P st) try_to_deflate of
           Inl e \<Rightarrow> Some (Inl e)
         | Inr st' \<Rightarrow> QR_loop_rel P st')
      else Some (Inr st))"

definition run_QR_algorithm_rel ::
  "('a::linordered_idom, 'r) externals \<Rightarrow> 'a schur_decomposition \<Rightarrow> (error + 'a schur_decomposition) option" where
  "run_QR_algorithm_rel P st =
     (case size_schur st of
        Inl e \<Rightarrow> Some (Inl e)
      | Inr n \<Rightarrow>
          (let st0 = st\<lparr>cur_size := n - 1\<rparr> in
           if 2 \<le> cur_size st0 then
             (case try_to_deflate st0 of
                Inl e \<Rightarrow> Some (Inl e)
              | Inr st1 \<Rightarrow> QR_loop_rel P st1)
           else QR_loop_rel P st0))"

text \<open>
  \<^verbatim>\<open>set_internal_resources\<close>, statement by statement. A null output pointer is \<open>None\<close>.
  The assignment \<^verbatim>\<open>*p_schur_form_ = data\<close> resizes the destination and copies every
  coefficient; it stands between \<^verbatim>\<open>assert(data.rows() == data.cols())\<close> and
  \<^verbatim>\<open>assert(unitary)\<close>, so when the last assertion fails the caller's matrix already
  holds the copy. A failure is returned with the contents of that matrix.
\<close>

definition set_internal_resources ::
  "'a schur_decomposition \<Rightarrow> 'a matrix \<Rightarrow> 'a matrix option \<Rightarrow> 'a matrix option
     \<Rightarrow> (error \<times> 'a matrix option) + 'a schur_decomposition" where
  "set_internal_resources this data schur_form unitary =
     (case schur_form of
        None \<Rightarrow> Inl (InvalidArgument, None)
      | Some sf \<Rightarrow>
          if rows data \<noteq> cols data then Inl (InvalidArgument, Some sf)
          else (case unitary of
                  None \<Rightarrow> Inl (InvalidArgument, Some data)
                | Some un \<Rightarrow> Inr (this\<lparr>p_schur_form := data, p_unitary := un\<rparr>)))"

definition run_rel ::
  "('a::linordered_idom, 'r) externals \<Rightarrow> 'a schur_decomposition \<Rightarrow> 'a matrix \<Rightarrow> 'a matrix option \<Rightarrow> 'a matrix option
     \<Rightarrow> ('a failure + 'a schur_decomposition) option" where
  "run_rel P this data schur_form unitary =
     (case set_internal_resources this data schur_form unitary of
        Inl (e, buf) \<Rightarrow> Some (Inl (Rejected e buf))
      | Inr st \<Rightarrow>
          later_phase
            (case reduce_to_hessenberg_form P st of
               Inl e \<Rightarrow> Some (Inl e)
             | Inr st1 \<Rightarrow> run_QR_algorithm_rel P st1))"

section \<open>The absolute-threshold implementation\<close>

text \<open>The matrix expressions \<^verbatim>\<open>find_starter_column\<close> is written with.\<close>

definition mat_mul :: "'a::comm_ring_1 matrix \<Rightarrow> 'a matrix \<Rightarrow> 'a matrix" where
  "mat_mul a b =
     \<lparr>rows = rows a, cols = cols b,
      coeff = \<lambda>i j. (\<Sum>k\<leftarrow>[0..<nat (cols a)]. coeff a i (int k) * coeff b (int k) j)\<rparr>"

definition mat_add :: "'a::comm_ring_1 matrix \<Rightarrow> 'a matrix \<Rightarrow> 'a matrix" where
  "mat_add a b = \<lparr>rows = rows a, cols = cols a, coeff = \<lambda>i j. coeff a i j + coeff b i j\<rparr>"

definition mat_sub :: "'a::comm_ring_1 matrix \<Rightarrow> 'a matrix \<Rightarrow> 'a matrix" where
  "mat_sub a b = \<lparr>rows = rows a, cols = cols a, coeff = \<lambda>i j. coeff a i j - coeff b i j\<rparr>"

definition scalar_mul :: "'a::comm_ring_1 \<Rightarrow> 'a matrix \<Rightarrow> 'a matrix" where
  "scalar_mul s a = \<lparr>rows = rows a, cols = cols a, coeff = \<lambda>i j. s * coeff a i j\<rparr>"

definition identity :: "int \<Rightarrow> 'a::comm_ring_1 matrix" where
  "identity n = \<lparr>rows = n, cols = n, coeff = \<lambda>i j. if i = j then 1 else 0\<rparr>"

definition find_starter_column :: "'a::linordered_idom schur_decomposition \<Rightarrow> error + 'a list" where
  "find_starter_column st =
     bindE (find_bottom_corner_trace st) (\<lambda>trace.
     bindE (find_bottom_corner_det st) (\<lambda>det.
     bindE (block (p_schur_form st) 0 0 3 3) (\<lambda>top_corner.
       (let starter_block =
              mat_add (mat_sub (mat_mul top_corner top_corner) (scalar_mul trace top_corner))
                      (scalar_mul det (identity 3))
        in Inr (col_vector starter_block)))))"

definition near_zero :: "'a::linordered_idom schur_decomposition \<Rightarrow> 'a \<Rightarrow> bool" where
  "near_zero st v = (\<bar>v\<bar> < precision st)"

definition deflate_once ::
  "'a::linordered_idom schur_decomposition \<Rightarrow> error + 'a schur_decomposition" where
  "deflate_once st =
     bindE (set_coeff (p_schur_form st) (cur_size st) (cur_size st - 1) 0)
       (\<lambda>m. Inr (st\<lparr>p_schur_form := m, cur_size := cur_size st - 1\<rparr>))"

definition deflate_twice ::
  "'a::linordered_idom schur_decomposition \<Rightarrow> error + 'a schur_decomposition" where
  "deflate_twice st =
     bindE (set_coeff (p_schur_form st) (cur_size st - 1) (cur_size st - 2) 0)
       (\<lambda>m. Inr (st\<lparr>p_schur_form := m, cur_size := cur_size st - 2\<rparr>))"

definition try_deflate ::
  "'a::linordered_idom schur_decomposition \<Rightarrow> error + 'a schur_decomposition" where
  "try_deflate st =
     bindE (get_coeff (p_schur_form st) (cur_size st) (cur_size st - 1)) (\<lambda>v.
       if near_zero st v then deflate_once st
       else bindE (get_coeff (p_schur_form st) (cur_size st - 1) (cur_size st - 2)) (\<lambda>w.
              if near_zero st w then deflate_twice st else Inr st))"

text \<open>
  \<^verbatim>\<open>start\<close>. Its last statement, on \<^verbatim>\<open>p_unitary_->block(0, 0, size(), 3)\<close>, is the statement
  of \<open>update_unitary\<close> at \<open>step = -1\<close>.
\<close>

definition start ::
  "('a::linordered_idom, 'r) externals \<Rightarrow> 'a schur_decomposition \<Rightarrow> error + 'a schur_decomposition" where
  "start P st =
     bindE (find_starter_column st) (\<lambda>col.
     bindE (Reflector P col) (\<lambda>reflector.
     bindE (size_schur st) (\<lambda>n.
     bindE (in_block (p_schur_form st) 0 0 3 n (reflect_left P reflector)) (\<lambda>m1.
     bindE (in_block m1 0 0 (min (cur_size st) 3 + 1) 3 (reflect_right P reflector)) (\<lambda>m2.
       update_unitary P reflector (- 1) 3 (st\<lparr>p_schur_form := m2\<rparr>))))))"

text \<open>
  The body of the loop of \<^verbatim>\<open>process\<close>: the reflector from three entries of column
  \<open>step\<close>, its left application, then the right applications to the Schur form
  (\<^verbatim>\<open>block(0, step + 1, min(cur_size_, step + 4) + 1, 3)\<close>, the statement of
  \<open>schur_reflect_right\<close>) and to the unitary matrix (the statement of \<open>update_unitary\<close>).
\<close>

definition process_step ::
  "('a, 'r) externals \<Rightarrow> int \<Rightarrow> 'a schur_decomposition \<Rightarrow> error + 'a schur_decomposition" where
  "process_step P step st =
     bindE (block (p_schur_form st) (step + 1) step 3 1) (\<lambda>b.
     bindE (Reflector P (col_vector b)) (\<lambda>reflector.
     bindE (size_schur st) (\<lambda>n.
     bindE (in_block (p_schur_form st) (step + 1) step 3 (n - step) (reflect_left P reflector)) (\<lambda>m1.
     bindE (schur_reflect_right P reflector step 3 (st\<lparr>p_schur_form := m1\<rparr>))
       (update_unitary P reflector step 3)))))"

lemma process_step_cur_size:
  "process_step P step st = Inr st' \<Longrightarrow> cur_size st' = cur_size st"
  by (auto simp: process_step_def bindE_Inr_iff
      dest!: schur_reflect_right_cur_size update_unitary_cur_size)

function process_from ::
  "('a, 'r) externals \<Rightarrow> int \<Rightarrow> 'a schur_decomposition \<Rightarrow> error + 'a schur_decomposition" where
  "process_from P step st =
     (if step \<le> cur_size st - 3 then
        (case process_step P step st of
           Inl e \<Rightarrow> Inl e
         | Inr st' \<Rightarrow> process_from P (step + 1) st')
      else Inr st)"
  by pat_completeness auto
termination
  by (relation "measure (\<lambda>(P, step, st). nat (cur_size st - step))")
     (auto dest: process_step_cur_size)

declare process_from.simps [simp del]

definition process ::
  "('a, 'r) externals \<Rightarrow> 'a schur_decomposition \<Rightarrow> error + 'a schur_decomposition" where
  "process P st = process_from P 0 st"

definition finish ::
  "('a, 'r) externals \<Rightarrow> 'a schur_decomposition \<Rightarrow> error + 'a schur_decomposition" where
  "finish P st =
     bindE (block (p_schur_form st) (cur_size st - 1) (cur_size st - 2) 2 1) (\<lambda>b.
     bindE (Reflector P (col_vector b)) (\<lambda>reflector.
     bindE (size_schur st) (\<lambda>n.
     bindE (in_block (p_schur_form st) (cur_size st - 1) (cur_size st - 2) 2 (n - cur_size st + 2)
              (reflect_left P reflector)) (\<lambda>m1.
     bindE (in_block m1 0 (cur_size st - 1) (cur_size st + 1) 2 (reflect_right P reflector)) (\<lambda>m2.
     bindE (in_block (p_unitary st) 0 (cur_size st - 1) n 2 (reflect_right P reflector)) (\<lambda>u.
       Inr (st\<lparr>p_schur_form := m2, p_unitary := u\<rparr>)))))))"

text \<open>The body of the \<^verbatim>\<open>for\<close> loop of \<^verbatim>\<open>run_QR_algorithm\<close>.\<close>

definition QR_iteration_abs ::
  "('a::linordered_idom, 'r) externals \<Rightarrow> 'a schur_decomposition \<Rightarrow> error + 'a schur_decomposition" where
  "QR_iteration_abs P st =
     bindE (start P st) (\<lambda>s1. bindE (process P s1) (\<lambda>s2. bindE (finish P s2) try_deflate))"

partial_function (option) QR_loop_abs ::
  "('a::linordered_idom, 'r) externals \<Rightarrow> 'a schur_decomposition \<Rightarrow> (error + 'a schur_decomposition) option" where
  "QR_loop_abs P st =
     (if 2 \<le> cur_size st then
        (case QR_iteration_abs P st of
           Inl e \<Rightarrow> Some (Inl e)
         | Inr st' \<Rightarrow> QR_loop_abs P st')
      else Some (Inr st))"

definition run_QR_algorithm_abs ::
  "('a::linordered_idom, 'r) externals \<Rightarrow> 'a schur_decomposition \<Rightarrow> (error + 'a schur_decomposition) option" where
  "run_QR_algorithm_abs P st =
     (case size_schur st of
        Inl e \<Rightarrow> Some (Inl e)
      | Inr n \<Rightarrow> QR_loop_abs P (st\<lparr>cur_size := n - 1\<rparr>))"

text \<open>
  \<^verbatim>\<open>set_internal_members\<close>: the three assertions come first, the assignment
  \<^verbatim>\<open>*p_schur_form_ = data\<close> last, so a failure leaves the caller's matrix as it was.
\<close>

definition set_internal_members ::
  "'a schur_decomposition \<Rightarrow> 'a matrix \<Rightarrow> 'a matrix option \<Rightarrow> 'a matrix option
     \<Rightarrow> (error \<times> 'a matrix option) + 'a schur_decomposition" where
  "set_internal_members this data schur_form unitary =
     (if rows data \<noteq> cols data then Inl (InvalidArgument, schur_form)
      else (case schur_form of
              None \<Rightarrow> Inl (InvalidArgument, None)
            | Some sf \<Rightarrow>
                (case unitary of
                   None \<Rightarrow> Inl (InvalidArgument, Some sf)
                 | Some un \<Rightarrow> Inr (this\<lparr>p_schur_form := data, p_unitary := un\<rparr>))))"

definition run_abs ::
  "('a::linordered_idom, 'r) externals \<Rightarrow> 'a schur_decomposition \<Rightarrow> 'a matrix \<Rightarrow> 'a matrix option \<Rightarrow> 'a matrix option
     \<Rightarrow> ('a failure + 'a schur_decomposition) option" where
  "run_abs P this data schur_form unitary =
     (case set_internal_members this data schur_form unitary of
        Inl (e, buf) \<Rightarrow> Some (Inl (Rejected e buf))
      | Inr st \<Rightarrow>
          later_phase
            (case reduce_to_hessenberg_form P st of
               Inl e \<Rightarrow> Some (Inl e)
             | Inr st1 \<Rightarrow> run_QR_algorithm_abs P st1))"

section \<open>The symmetric tridiagonal holder\<close>

text \<open>
  The two vectors are allocated and not initialised: \<open>fresh\<close> stands for whatever the new
  storage holds. \<^verbatim>\<open>size_\<close> is a \<^verbatim>\<open>size_t\<close> set from an \<^verbatim>\<open>int\<close> that the assertion
  makes at least 2.
\<close>

record 'a tridiagonal_symmetric =
  major_diagonal :: "'a list"
  side_diagonal :: "'a list"
  size_field :: nat

definition TridiagonalSymmetric :: "(nat \<Rightarrow> 'a) \<Rightarrow> int \<Rightarrow> error + 'a tridiagonal_symmetric" where
  "TridiagonalSymmetric fresh n =
     (if 2 \<le> n
      then Inr \<lparr>major_diagonal = map fresh [0..<nat n],
                side_diagonal = map fresh [0..<nat n - 1],
                size_field = nat n\<rparr>
      else Inl InvalidArgument)"

definition get_major_diagonal :: "'a tridiagonal_symmetric \<Rightarrow> 'a list" where
  "get_major_diagonal t = major_diagonal t"

definition get_side_diagonal :: "'a tridiagonal_symmetric \<Rightarrow> 'a list" where
  "get_side_diagonal t = side_diagonal t"

definition get_size :: "'a tridiagonal_symmetric \<Rightarrow> nat" where
  "get_size t = size_field t"

text \<open>
  The accessors that are not \<^verbatim>\<open>const\<close> return references: the caller may assign any
  vector through them.
\<close>

definition assign_major_diagonal :: "'a tridiagonal_symmetric \<Rightarrow> 'a list \<Rightarrow> 'a tridiagonal_symmetric" where
  "assign_major_diagonal t v = t\<lparr>major_diagonal := v\<rparr>"

definition assign_side_diagonal :: "'a tridiagonal_symmetric \<Rightarrow> 'a list \<Rightarrow> 'a tridiagonal_symmetric" where
  "assign_side_diagonal t v = t\<lparr>side_diagonal := v\<rparr>"


section \<open>The Householder reflector\<close>

text \<open>
  Modelled from the spec: the class \<^verbatim>\<open>HouseholderReflector\<close>, whose header
  (\<^verbatim>\<open>householder_reflection.h\<close>) is not among the sources; only its callers are. The
  specification (section 4.1) gives a reflector built from one vector \<open>x\<close>, holding a
  reflection vector \<open>v\<close> and a scaling factor \<open>\<beta>\<close>, with \<open>H = I - \<beta> v v\<^sup>T\<close> sending \<open>x\<close>
  to a multiple of the first basis vector; when \<open>x\<close> is already such a multiple (the zero
  vector included) the reflector acts as the identity.
\<close>

record householder_reflector =
  reflection_vector :: "real list"
  scaling_factor :: real

text \<open>
  Modelled from the spec: \<open>x\<close> is a multiple of the first basis vector when every entry
  after the first is zero.
\<close>

definition multiple_of_first_basis :: "real list \<Rightarrow> bool" where
  "multiple_of_first_basis x = list_all (\<lambda>t. t = 0) (tl x)"

text \<open>
  Modelled from the spec: the constructor. In the degenerate case the scaling factor is 0;
  otherwise \<open>v = x - \<alpha> e\<^sub>1\<close> with \<open>\<alpha> = \<plusminus> \<parallel>x\<parallel>\<close> of the sign opposite to the first entry, and
  \<open>\<beta> = 2 / (v\<^sup>T v)\<close>.
\<close>

definition HouseholderReflector :: "real list \<Rightarrow> householder_reflector" where
  "HouseholderReflector x =
     (if multiple_of_first_basis x then \<lparr>reflection_vector = x, scaling_factor = 0\<rparr>
      else (let alpha = (if 0 \<le> hd x then - 1 else 1) * sqrt (\<Sum>t\<leftarrow>x. t * t);
                v = (hd x - alpha) # tl x
            in \<lparr>reflection_vector = v, scaling_factor = 2 / (\<Sum>t\<leftarrow>v. t * t)\<rparr>))"

text \<open>
  Modelled from the spec: \<^verbatim>\<open>reflect_left\<close> overwrites the block with \<open>H\<close> times the block,
  \<^verbatim>\<open>reflect_right\<close> with the block times \<open>H\<close>. The precondition (the block's row count,
  respectively column count, equals the length of \<open>x\<close>) is checked as an argument error.
\<close>

definition householder_reflect_left :: "householder_reflector \<Rightarrow> real matrix \<Rightarrow> error + real matrix" where
  "householder_reflect_left H b =
     (let v = reflection_vector H; beta = scaling_factor H in
      if rows b \<noteq> int (length v) then Inl InvalidArgument
      else Inr (b\<lparr>coeff := \<lambda>i j.
             if 0 \<le> i \<and> i < rows b \<and> 0 \<le> j \<and> j < cols b
             then coeff b i j - beta * (v ! nat i) * (\<Sum>k\<leftarrow>[0..<length v]. v ! k * coeff b (int k) j)
             else coeff b i j\<rparr>))"

definition householder_reflect_right :: "householder_reflector \<Rightarrow> real matrix \<Rightarrow> error + real matrix" where
  "householder_reflect_right H b =
     (let v = reflection_vector H; beta = scaling_factor H in
      if cols b \<noteq> int (length v) then Inl InvalidArgument
      else Inr (b\<lparr>coeff := \<lambda>i j.
             if 0 \<le> i \<and> i < rows b \<and> 0 \<le> j \<and> j < cols b
             then coeff b i j - beta * (\<Sum>k\<leftarrow>[0..<length v]. coeff b i (int k) * v ! k) * (v ! nat j)
             else coeff b i j\<rparr>))"

section \<open>Reference notions of the specification\<close>

text \<open>Upper Hessenberg: every entry below the first subdiagonal is zero.\<close>

definition upper_hessenberg :: "'a::zero matrix \<Rightarrow> bool" where
  "upper_hessenberg m =
     list_all (\<lambda>i. list_all (\<lambda>j. coeff m (int i) (int j) = 0) [0..<i - 1]) [0..<nat (rows m)]"

text \<open>
  The starter vector as the specification words it: with \<open>M\<close> the leading 3 by 3 block,
  and the trace and determinant of the trailing 2 by 2 block of the active region (rows
  and columns \<open>cur_size - 1\<close> and \<open>cur_size\<close>), the first column of
  \<open>M\<^sup>2 - trace M + det I\<close>.
\<close>

definition starter_reference :: "'a::linordered_idom schur_decomposition \<Rightarrow> 'a list" where
  "starter_reference st =
     (let T = coeff (p_schur_form st);
          c = cur_size st;
          trace = T (c - 1) (c - 1) + T c c;
          det = T (c - 1) (c - 1) * T c c - T (c - 1) c * T c (c - 1);
          M2 = (\<lambda>i j. \<Sum>k\<leftarrow>[0, 1, 2]. T i k * T k j)
      in map (\<lambda>i. M2 i 0 - trace * T i 0 + det * (if i = 0 then 1 else 0)) [0, 1, 2])"

section \<open>Example inputs\<close>

text \<open>A matrix given by its rows.\<close>

definition of_rows :: "'a list list \<Rightarrow> 'a matrix" where
  "of_rows xss =
     \<lparr>rows = int (length xss),
      cols = (case xss of [] \<Rightarrow> 0 | r # _ \<Rightarrow> int (length r)),
      coeff = \<lambda>i j. xss ! nat i ! nat j\<rparr>"

text \<open>
  Collaborators that leave every view as it is, and a Hessenberg reduction that returns
  its (already reduced) input with the identity as the accumulated transform.
\<close>

definition ext_id :: "(real, real list) externals" where
  "ext_id =
     \<lparr>Reflector = \<lambda>v. Inr v,
      reflect_left = \<lambda>r b. Inr b,
      reflect_right = \<lambda>r b. Inr b,
      hessenberg_run = \<lambda>a u. Inr (a, identity (rows a))\<rparr>"

text \<open>
  A 3 by 3 Hessenberg matrix whose entry (2, 1) is zero and whose entry (1, 0) is not
  small, in an object of precision 1/10.
\<close>

definition T_deflated :: "real matrix" where
  "T_deflated = of_rows [[1, 1, 1], [1, 1, 1], [0, 0, 1]]"

definition S_deflated :: "real schur_decomposition" where
  "S_deflated = \<lparr>precision = 1 / 10, p_schur_form = T_deflated, p_unitary = identity 3, cur_size = 0\<rparr>"

text \<open>
  A 4 by 4 Hessenberg matrix whose only small subdiagonal entry is (3, 2), a symmetric
  2 by 2 matrix, and a matrix that is not square.
\<close>

definition T4 :: "real matrix" where
  "T4 = of_rows [[1, 1, 1, 1], [1, 1, 1, 1], [0, 1, 1, 1], [0, 0, 0, 1]]"

definition S4 :: "real schur_decomposition" where
  "S4 = \<lparr>precision = 1 / 10, p_schur_form = T4, p_unitary = identity 4, cur_size = 3\<rparr>"

definition D2 :: "real matrix" where
  "D2 = of_rows [[2, 1], [1, 2]]"

definition D23 :: "real matrix" where
  "D23 = of_rows [[1, 2, 3], [4, 5, 6]]"

text \<open>
  A 3 by 3 state whose entry (2, 1) is small against its diagonal neighbours
  (1 < 1/10 * (10 + 10)) and not small in absolute terms (1 > 1/10).
\<close>

definition S_relative_only :: "real schur_decomposition" where
  "S_relative_only =
     \<lparr>precision = 1 / 10, p_schur_form = of_rows [[10, 1, 1], [1, 10, 1], [0, 1, 10]],
      p_unitary = identity 3, cur_size = 2\<rparr>"

text \<open>
  A 6 by 6 Hessenberg matrix of ones, and collaborators whose right application adds 1
  to every coefficient of the view it is given.
\<close>

definition S6 :: "real schur_decomposition" where
  "S6 =
     \<lparr>precision = 1 / 10,
      p_schur_form = \<lparr>rows = 6, cols = 6, coeff = \<lambda>i j. if i \<le> j + 1 then 1 else 0\<rparr>,
      p_unitary = identity 6, cur_size = 5\<rparr>"

definition ext_bump :: "(real, real list) externals" where
  "ext_bump =
     \<lparr>Reflector = \<lambda>v. Inr v,
      reflect_left = \<lambda>r b. Inr b,
      reflect_right = \<lambda>r b. Inr (b\<lparr>coeff := \<lambda>i j. coeff b i j + 1\<rparr>),
      hessenberg_run = \<lambda>a u. Inr (a, identity (rows a))\<rparr>"

text \<open>
  A 5 by 5 Hessenberg state, \<open>cur_size = 4\<close>, whose entry (4, 3) is not small and whose
  entry (3, 2) is zero: the trailing 2 by 2 block has converged.
\<close>

definition S5 :: "real schur_decomposition" where
  "S5 =
     \<lparr>precision = 1 / 10,
      p_schur_form =
        \<lparr>rows = 5, cols = 5, coeff = \<lambda>i j. if i = 3 \<and> j = 2 then 0 else if i \<le> j + 1 then 1 else 0\<rparr>,
      p_unitary = identity 5, cur_size = 4\<rparr>"

section \<open>The cascading deflation of the relative-threshold implementation\<close>

lemma zero_under_diagonal_0: "zero_under_diagonal st 0 = Inl OutOfBounds"
  by (simp add: zero_under_diagonal_def get_coeff_def)

lemma zero_under_diagonal_error:
  "zero_under_diagonal st i = Inl e \<Longrightarrow> e = OutOfBounds"
  by (auto simp: zero_under_diagonal_def get_coeff_def bindE_def split: if_splits sum.splits)

lemma decrement_cur_size_error:
  "decrement_cur_size st d = Inl e \<Longrightarrow> e = OutOfBounds"
  by (auto simp: decrement_cur_size_def set_coeff_def bindE_def split: if_splits sum.splits)

lemma try_to_deflate_cur_le_0:
  "cur_size st \<le> 0 \<Longrightarrow> try_to_deflate st = Inl OutOfBounds"
  by (subst try_to_deflate.simps) (simp add: zero_under_diagonal_def get_coeff_def)

lemma try_to_deflate_cur_1:
  assumes "cur_size st = 1"
  shows "try_to_deflate st = Inl OutOfBounds"
proof (cases "zero_under_diagonal st 1")
  case (Inl e)
  with assms zero_under_diagonal_error[OF Inl] show ?thesis
    by (subst try_to_deflate.simps) simp
next
  case (Inr b)
  show ?thesis
  proof (cases b)
    case True
    show ?thesis
    proof (cases "decrement_cur_size st 1")
      case (Inl e)
      with Inr True assms decrement_cur_size_error[OF Inl] show ?thesis
        by (subst try_to_deflate.simps) simp
    next
      case st': (Inr st')
      have "cur_size st' = 0" using decrement_cur_size_cur[OF st'] assms by simp
      then have "try_to_deflate st' = Inl OutOfBounds" by (simp add: try_to_deflate_cur_le_0)
      with st' Inr True assms show ?thesis by (subst try_to_deflate.simps) simp
    qed
  next
    case False
    with Inr assms show ?thesis
      by (subst try_to_deflate.simps) (simp add: zero_under_diagonal_0)
  qed
qed

text \<open>
  C4. In the relative-threshold implementation the cascading loop of
  \<open>try_to_deflate\<close> has no guard on \<open>cur_size\<close>. At \<open>cur_size = 2\<close>, on a Schur form
  whose entry (2, 1) is below the tolerance, the first test fires, \<open>cur_size\<close> becomes 1,
  and the loop goes on to \<open>zero_under_diagonal 0\<close>, which reads row 0, column -1: the
  deflation ends in an out-of-bounds access, whether or not the entry (1, 0) is small.
  For a 3 by 3 Schur form this is the first deflation test of \<open>run_QR_algorithm\<close>, so the
  state is reached and the QR phase fails there.
\<close>

theorem try_to_deflate_out_of_bounds:
  assumes "rows (p_schur_form st) = n" and "cols (p_schur_form st) = n" and "3 \<le> n"
    and "\<bar>coeff (p_schur_form st) 2 1\<bar>
           < precision st * (\<bar>coeff (p_schur_form st) 2 2\<bar> + \<bar>coeff (p_schur_form st) 1 1\<bar>)"
  shows "zero_under_diagonal st 0 = Inl OutOfBounds
       \<and> try_to_deflate (st\<lparr>cur_size := 2\<rparr>) = Inl OutOfBounds
       \<and> (n = 3 \<longrightarrow> run_QR_algorithm_rel P st = Some (Inl OutOfBounds))"
proof -
  let ?st0 = "st\<lparr>cur_size := 2\<rparr>"
  have z: "zero_under_diagonal ?st0 2 = Inr True"
    using assms by (simp add: zero_under_diagonal_def get_coeff_def)
  obtain st1 where d: "decrement_cur_size ?st0 1 = Inr st1"
    using assms by (simp add: decrement_cur_size_def set_coeff_def)
  have "cur_size st1 = 1" using decrement_cur_size_cur[OF d] by simp
  then have "try_to_deflate st1 = Inl OutOfBounds" by (rule try_to_deflate_cur_1)
  with z d have t: "try_to_deflate ?st0 = Inl OutOfBounds"
    by (subst try_to_deflate.simps) simp
  have "run_QR_algorithm_rel P st = Some (Inl OutOfBounds)" if "n = 3"
    using that assms t by (simp add: run_QR_algorithm_rel_def size_schur_def)
  with t show ?thesis by (simp add: zero_under_diagonal_0)
qed

theorem try_to_deflate_out_of_bounds_witness:
  "rows (p_schur_form S_deflated) = 3 \<and> cols (p_schur_form S_deflated) = 3 \<and> (3::int) \<le> 3
   \<and> \<bar>coeff (p_schur_form S_deflated) 2 1\<bar>
       < precision S_deflated
         * (\<bar>coeff (p_schur_form S_deflated) 2 2\<bar> + \<bar>coeff (p_schur_form S_deflated) 1 1\<bar>)
   \<and> \<not> \<bar>coeff (p_schur_form S_deflated) 1 0\<bar>
       < precision S_deflated
         * (\<bar>coeff (p_schur_form S_deflated) 1 1\<bar> + \<bar>coeff (p_schur_form S_deflated) 0 0\<bar>)
   \<and> zero_under_diagonal S_deflated 0 = Inl OutOfBounds
   \<and> try_to_deflate (S_deflated\<lparr>cur_size := 2\<rparr>) = Inl OutOfBounds
   \<and> run_QR_algorithm_rel ext_id S_deflated = Some (Inl OutOfBounds)"
proof -
  have h: "rows (p_schur_form S_deflated) = 3" "cols (p_schur_form S_deflated) = 3"
    "(3::int) \<le> 3"
    "\<bar>coeff (p_schur_form S_deflated) 2 1\<bar>
       < precision S_deflated
         * (\<bar>coeff (p_schur_form S_deflated) 2 2\<bar> + \<bar>coeff (p_schur_form S_deflated) 1 1\<bar>)"
    "\<not> \<bar>coeff (p_schur_form S_deflated) 1 0\<bar>
       < precision S_deflated
         * (\<bar>coeff (p_schur_form S_deflated) 1 1\<bar> + \<bar>coeff (p_schur_form S_deflated) 0 0\<bar>)"
    by (simp_all add: S_deflated_def T_deflated_def of_rows_def)
  from try_to_deflate_out_of_bounds[OF h(1-4), of ext_id] h show ?thesis by simp
qed

section \<open>The active size and the QR loop\<close>

lemma in_block_dims:
  "in_block m r c nr nc f = Inr m' \<Longrightarrow> rows m' = rows m \<and> cols m' = cols m"
  by (auto simp: in_block_def write_block_def bindE_Inr_iff)

lemma start_cur_size: "start P st = Inr st' \<Longrightarrow> cur_size st' = cur_size st"
  by (auto simp: start_def bindE_Inr_iff dest!: update_unitary_cur_size)

lemma process_from_cur_size:
  "process_from P step st = Inr st' \<Longrightarrow> cur_size st' = cur_size st"
proof (induction P step st rule: process_from.induct)
  case (1 P step st)
  show ?case
  proof (cases "step \<le> cur_size st - 3")
    case True
    with "1.prems" obtain s where s: "process_step P step st = Inr s"
      and r: "process_from P (step + 1) s = Inr st'"
      by (subst (asm) process_from.simps) (auto split: sum.splits)
    from "1.IH"[OF True s r] process_step_cur_size[OF s] show ?thesis by simp
  next
    case False
    with "1.prems" show ?thesis by (subst (asm) process_from.simps) simp
  qed
qed

lemma finish_cur_size: "finish P st = Inr st' \<Longrightarrow> cur_size st' = cur_size st"
  by (auto simp: finish_def bindE_Inr_iff)

lemma try_deflate_cur_size:
  "try_deflate st = Inr st' \<Longrightarrow>
     cur_size st' = cur_size st \<or> cur_size st' = cur_size st - 1 \<or> cur_size st' = cur_size st - 2"
  by (auto simp: try_deflate_def deflate_once_def deflate_twice_def bindE_Inr_iff split: if_splits)

lemma QR_iteration_abs_cur_size:
  assumes "QR_iteration_abs P st = Inr st'"
  shows "cur_size st' = cur_size st \<or> cur_size st' = cur_size st - 1 \<or> cur_size st' = cur_size st - 2"
proof -
  from assms obtain s1 s2 s3 where "start P st = Inr s1" "process P s1 = Inr s2"
    "finish P s2 = Inr s3" "try_deflate s3 = Inr st'"
    by (auto simp: QR_iteration_abs_def bindE_Inr_iff)
  then show ?thesis
    using start_cur_size[of P st s1] process_from_cur_size[of P 0 s1 s2]
      finish_cur_size[of P s2 s3] try_deflate_cur_size[of s3 st']
    by (simp add: process_def)
qed

lemma restore_hessenberg_form_from_cur_size:
  "restore_hessenberg_form_from P step st = Inr st' \<Longrightarrow> cur_size st' = cur_size st"
proof (induction P step st rule: restore_hessenberg_form_from.induct)
  case (1 P step st)
  show ?case
  proof (cases "step \<le> cur_size st - 3")
    case True
    with "1.prems" obtain s where s: "restore_step P step 3 st = Inr s"
      and r: "restore_hessenberg_form_from P (step + 1) s = Inr st'"
      by (subst (asm) restore_hessenberg_form_from.simps) (auto split: sum.splits)
    from "1.IH"[OF True s r] restore_step_cur_size[OF s] show ?thesis by simp
  next
    case False
    with "1.prems" have "restore_step P step 2 st = Inr st'"
      by (subst (asm) restore_hessenberg_form_from.simps) simp
    then show ?thesis by (rule restore_step_cur_size)
  qed
qed

lemma make_QR_iteration_cur_size:
  "make_QR_iteration P st = Inr st' \<Longrightarrow> cur_size st' = cur_size st"
  by (auto simp: make_QR_iteration_def set_matching_column_def restore_hessenberg_form_def
      bindE_Inr_iff
      dest!: update_schur_form_cur_size update_unitary_cur_size restore_hessenberg_form_from_cur_size)

lemma try_to_deflate_cur_size_le:
  "try_to_deflate st = Inr st' \<Longrightarrow> cur_size st' \<le> cur_size st"
proof (induction st rule: try_to_deflate.induct)
  case (1 st)
  obtain b1 where b1: "zero_under_diagonal st (cur_size st) = Inr b1"
    using "1.prems" by (subst (asm) try_to_deflate.simps) (auto split: sum.splits)
  show ?case
  proof (cases b1)
    case True
    with b1 "1.prems" obtain s where s: "decrement_cur_size st 1 = Inr s"
      and r: "try_to_deflate s = Inr st'"
      by (subst (asm) try_to_deflate.simps) (auto split: sum.splits)
    from "1.IH"(1)[OF b1 True s r] decrement_cur_size_cur[OF s] show ?thesis by simp
  next
    case False
    with b1 "1.prems" obtain b2 where b2: "zero_under_diagonal st (cur_size st - 1) = Inr b2"
      by (subst (asm) try_to_deflate.simps) (auto split: sum.splits)
    show ?thesis
    proof (cases b2)
      case True
      with b1 False b2 "1.prems" obtain s where s: "decrement_cur_size st 2 = Inr s"
        and r: "try_to_deflate s = Inr st'"
        by (subst (asm) try_to_deflate.simps) (auto split: sum.splits)
      from "1.IH"(2)[OF b1 False b2 True s r] decrement_cur_size_cur[OF s] show ?thesis by simp
    next
      case b2F: False
      with b1 False b2 "1.prems" show ?thesis
        by (subst (asm) try_to_deflate.simps) simp
    qed
  qed
qed

lemma QR_loop_abs_step:
  fixes loop :: "('a::linordered_idom, 'b) externals \<Rightarrow> 'a schur_decomposition \<Rightarrow> (error + 'a schur_decomposition) option"
  assumes IH: "\<And>Q s y. loop Q s = Some y \<Longrightarrow>
                 \<forall>f. y = Inr f \<longrightarrow> cur_size f < 2 \<and> cur_size f \<le> cur_size (snd (Q, s))"
      and eq: "(if 2 \<le> cur_size s
                then case QR_iteration_abs Q s of Inl e \<Rightarrow> Some (Inl e) | Inr st' \<Rightarrow> loop Q st'
                else Some (Inr s)) = Some r"
  shows "\<forall>f. r = Inr f \<longrightarrow> cur_size f < 2 \<and> cur_size f \<le> cur_size (snd (Q, s))"
  proof (cases "2 \<le> cur_size s")
    case True
    show ?thesis
    proof (cases "QR_iteration_abs Q s")
      case (Inl e)
      with True eq have "r = Inl e" by simp
      then show ?thesis by simp
    next
      case (Inr s')
      with True eq have "loop Q s' = Some r" by simp
      from IH[OF this] have "\<forall>f. r = Inr f \<longrightarrow> cur_size f < 2 \<and> cur_size f \<le> cur_size s'"
        by simp
      with QR_iteration_abs_cur_size[OF Inr] show ?thesis by fastforce
    qed
  next
    case False
    with eq have "r = Inr s" by simp
    with False show ?thesis by simp
  qed


lemma QR_loop_abs_exit:
  assumes "QR_loop_abs P st = Some (Inr fin)"
  shows "cur_size fin < 2 \<and> cur_size fin \<le> cur_size st"
proof -
  have "\<forall>f. (Inr fin :: error + 'a schur_decomposition) = Inr f
          \<longrightarrow> cur_size f < 2 \<and> cur_size f \<le> cur_size (snd (P, st))"
  proof (rule QR_loop_abs.raw_induct
      [where Pa = "\<lambda>ps r. \<forall>f. r = Inr f \<longrightarrow> cur_size f < 2 \<and> cur_size f \<le> cur_size (snd ps)",
        OF _ assms])
    fix loop :: "('a, 'b) externals \<Rightarrow> 'a schur_decomposition \<Rightarrow> (error + 'a schur_decomposition) option"
    fix Q s r
    assume IH: "\<And>Q s y. loop Q s = Some y \<Longrightarrow>
                 \<forall>f. y = Inr f \<longrightarrow> cur_size f < 2 \<and> cur_size f \<le> cur_size (snd (Q, s))"
      and eq: "(if 2 \<le> cur_size s
                then case QR_iteration_abs Q s of Inl e \<Rightarrow> Some (Inl e) | Inr st' \<Rightarrow> loop Q st'
                else Some (Inr s)) = Some r"
    from IH eq show "\<forall>f. r = Inr f \<longrightarrow> cur_size f < 2 \<and> cur_size f \<le> cur_size (snd (Q, s))"
      by (rule QR_loop_abs_step)
  qed
  then show ?thesis by simp
qed


lemma QR_loop_abs_done: "cur_size st < 2 \<Longrightarrow> QR_loop_abs P st = Some (Inr st)"
  by (subst QR_loop_abs.simps) simp

lemma QR_loop_rel_done: "cur_size st < 2 \<Longrightarrow> QR_loop_rel P st = Some (Inr st)"
  by (subst QR_loop_rel.simps) simp

lemma QR_loop_abs_continue:
  "2 \<le> cur_size st \<Longrightarrow>
   QR_loop_abs P st =
     (case QR_iteration_abs P st of Inl e \<Rightarrow> Some (Inl e) | Inr st' \<Rightarrow> QR_loop_abs P st')"
  by (subst QR_loop_abs.simps) simp

lemma QR_loop_rel_continue:
  "2 \<le> cur_size st \<Longrightarrow>
   QR_loop_rel P st =
     (case bindE (make_QR_iteration P st) try_to_deflate of
        Inl e \<Rightarrow> Some (Inl e) | Inr st' \<Rightarrow> QR_loop_rel P st')"
  by (subst QR_loop_rel.simps) simp

text \<open>
  What holds of \<open>cur_size\<close> in both loops: an iteration never raises it, a state with
  \<open>cur_size < 2\<close> is returned at once and unchanged, a state with \<open>2 \<le> cur_size\<close> runs
  another iteration; and every state the absolute-threshold loop returns has
  \<open>cur_size < 2\<close>.
\<close>

lemma cur_size_steps_and_guards:
  "(QR_iteration_abs P st = Inr st1 \<longrightarrow>
      cur_size st1 = cur_size st \<or> cur_size st1 = cur_size st - 1 \<or> cur_size st1 = cur_size st - 2)
   \<and> (bindE (make_QR_iteration P st) try_to_deflate = Inr st2 \<longrightarrow> cur_size st2 \<le> cur_size st)
   \<and> (QR_loop_abs P st = Some (Inr fin1) \<longrightarrow> cur_size fin1 < 2 \<and> cur_size fin1 \<le> cur_size st)
   \<and> (cur_size st < 2 \<longrightarrow> QR_loop_abs P st = Some (Inr st) \<and> QR_loop_rel P st = Some (Inr st))
   \<and> (2 \<le> cur_size st \<longrightarrow>
        QR_loop_abs P st =
          (case QR_iteration_abs P st of Inl e \<Rightarrow> Some (Inl e) | Inr st' \<Rightarrow> QR_loop_abs P st')
        \<and> QR_loop_rel P st =
          (case bindE (make_QR_iteration P st) try_to_deflate of
             Inl e \<Rightarrow> Some (Inl e) | Inr st' \<Rightarrow> QR_loop_rel P st'))"
proof -
  have a: "QR_iteration_abs P st = Inr st1 \<longrightarrow>
      cur_size st1 = cur_size st \<or> cur_size st1 = cur_size st - 1 \<or> cur_size st1 = cur_size st - 2"
    using QR_iteration_abs_cur_size by blast
  have b: "bindE (make_QR_iteration P st) try_to_deflate = Inr st2 \<longrightarrow> cur_size st2 \<le> cur_size st"
  proof
    assume "bindE (make_QR_iteration P st) try_to_deflate = Inr st2"
    then obtain s1 where s1: "make_QR_iteration P st = Inr s1" and d: "try_to_deflate s1 = Inr st2"
      by (auto simp: bindE_Inr_iff)
    from make_QR_iteration_cur_size[OF s1] try_to_deflate_cur_size_le[OF d]
    show "cur_size st2 \<le> cur_size st" by simp
  qed
  note c = QR_loop_abs_exit[of P st fin1]
  note e = QR_loop_abs_done[of st P] QR_loop_rel_done[of st P]
  note f = QR_loop_abs_continue[of st P] QR_loop_rel_continue[of st P]
  from a b c e f show ?thesis by blast
qed


text \<open>Evaluating the examples: collaborators that change nothing leave the owner as it is.\<close>

lemma write_block_view:
  "write_block m r c nr nc \<lparr>rows = nr, cols = nc, coeff = \<lambda>i j. coeff m (r + i) (c + j)\<rparr> = m"
  by (rule matrix.equality) (simp_all add: write_block_def fun_eq_iff)

lemma in_block_Inr:
  "0 \<le> r \<Longrightarrow> 0 \<le> nr \<Longrightarrow> r \<le> rows m - nr \<Longrightarrow> 0 \<le> c \<Longrightarrow> 0 \<le> nc \<Longrightarrow> c \<le> cols m - nc
   \<Longrightarrow> in_block m r c nr nc Inr = Inr m"
  by (simp add: in_block_def block_def write_block_view)

lemmas example_defs =
  ext_id_def S_deflated_def T_deflated_def of_rows_def identity_def S4_def T4_def

lemma QR_iteration_abs_example: "\<exists>st1. QR_iteration_abs ext_id (S_deflated\<lparr>cur_size := 2\<rparr>) = Inr st1 \<and> cur_size st1 = 1"
  by (simp add: QR_iteration_abs_def start_def find_starter_column_def find_bottom_corner_trace_def
      find_bottom_corner_det_def block_def size_schur_def in_block_Inr update_unitary_def
      process_def process_from.simps finish_def try_deflate_def get_coeff_def near_zero_def
      deflate_once_def set_coeff_def example_defs)

lemma make_QR_iteration_example: "make_QR_iteration ext_id S4 = Inr S4"
  by (simp add: make_QR_iteration_def set_matching_column_def find_matching_column_def
      find_bottom_corner_trace_def find_bottom_corner_det_def block_def size_schur_def in_block_Inr
      update_unitary_def update_schur_form_def schur_reflect_left_def schur_reflect_right_def
      restore_hessenberg_form_def restore_hessenberg_form_from.simps restore_step_def
      get_reflected_column_def get_coeff_def example_defs)

lemma try_to_deflate_example: "\<exists>st2. try_to_deflate S4 = Inr st2 \<and> cur_size st2 = 2"
  by (simp add: try_to_deflate.simps zero_under_diagonal_def get_coeff_def decrement_cur_size_def
      set_coeff_def example_defs)


lemma QR_loop_abs_example:
  "\<exists>fin. QR_loop_abs ext_id (S_deflated\<lparr>cur_size := 2\<rparr>) = Some (Inr fin) \<and> cur_size fin = 1"
proof -
  obtain st1 where i1: "QR_iteration_abs ext_id (S_deflated\<lparr>cur_size := 2\<rparr>) = Inr st1"
    and c1: "cur_size st1 = 1"
    using QR_iteration_abs_example by blast
  have "QR_loop_abs ext_id (S_deflated\<lparr>cur_size := 2\<rparr>) = Some (Inr st1)"
    using i1 c1 by (subst QR_loop_abs.simps) (simp add: QR_loop_abs_done)
  with c1 show ?thesis by blast
qed

section \<open>The run and its argument checks\<close>

text \<open>
  C7. On a 2 by 2 input \<open>cur_size\<close> starts at 1, so neither implementation enters its QR
  loop (and the relative-threshold one skips its first deflation test): whatever the
  reflector operations and the precision are, the result is the pair of matrices the
  Hessenberg reduction returned, with \<open>cur_size = 1\<close>.
\<close>

theorem run_2x2_skips_QR_loop:
  assumes "rows data = 2" and "cols data = 2"
    and "hessenberg_run P data un = Inr (T, U)" and "rows T = 2" and "cols T = 2"
  shows "run_abs P this data (Some sf) (Some un)
           = Some (Inr (this\<lparr>p_schur_form := T, p_unitary := U, cur_size := 1\<rparr>))
       \<and> run_rel P this data (Some sf) (Some un)
           = Some (Inr (this\<lparr>p_schur_form := T, p_unitary := U, cur_size := 1\<rparr>))"
proof -
  have r: "reduce_to_hessenberg_form P (this\<lparr>p_schur_form := data, p_unitary := un\<rparr>)
             = Inr (this\<lparr>p_schur_form := T, p_unitary := U\<rparr>)"
    using assms(3) by (simp add: reduce_to_hessenberg_form_def)
  have a: "run_QR_algorithm_abs P (this\<lparr>p_schur_form := T, p_unitary := U\<rparr>)
             = Some (Inr (this\<lparr>p_schur_form := T, p_unitary := U, cur_size := 1\<rparr>))"
    using assms(4,5) by (simp add: run_QR_algorithm_abs_def size_schur_def QR_loop_abs_done)
  have b: "run_QR_algorithm_rel P (this\<lparr>p_schur_form := T, p_unitary := U\<rparr>)
             = Some (Inr (this\<lparr>p_schur_form := T, p_unitary := U, cur_size := 1\<rparr>))"
    using assms(4,5) by (simp add: run_QR_algorithm_rel_def size_schur_def QR_loop_rel_done)
  show ?thesis
    using assms(1,2) r a b
    by (simp add: run_abs_def run_rel_def set_internal_members_def set_internal_resources_def
        later_phase_def)
qed


theorem run_2x2_skips_QR_loop_witness:
  "rows D2 = 2 \<and> cols D2 = 2
   \<and> hessenberg_run ext_id D2 D23 = Inr (D2, identity 2)
   \<and> rows D2 = 2 \<and> cols D2 = 2
   \<and> run_abs ext_id S4 D2 (Some D23) (Some D23)
        = Some (Inr (S4\<lparr>p_schur_form := D2, p_unitary := identity 2, cur_size := 1\<rparr>))
   \<and> run_rel ext_id S4 D2 (Some D23) (Some D23)
        = Some (Inr (S4\<lparr>p_schur_form := D2, p_unitary := identity 2, cur_size := 1\<rparr>))"
proof -
  have d: "rows D2 = 2" "cols D2 = 2" by (simp_all add: D2_def of_rows_def)
  have h: "hessenberg_run ext_id D2 D23 = Inr (D2, identity 2)"
    by (simp add: ext_id_def d)
  from run_2x2_skips_QR_loop[OF d h d, of S4 D23] d h show ?thesis by simp
qed

text \<open>
  C8. \<open>run\<close> rejects an input that is not square and a null output pointer with
  \<open>InvalidArgument\<close>, and with valid arguments its first step stores a copy of the input as
  the Schur form, on which the Hessenberg reduction then runs. A rejected call of the
  absolute-threshold version leaves the caller's Schur-form matrix as it was. A rejected
  call of the relative-threshold version does so when the input is not square or the
  Schur-form pointer is null; when only the unitary pointer is null, the caller's matrix
  has already been overwritten with the input at the moment the call fails.
\<close>

theorem run_checks_arguments:
  "((rows data \<noteq> cols data \<or> schur_form = None \<or> unitary = None) \<longrightarrow>
      run_abs P this data schur_form unitary = Some (Inl (Rejected InvalidArgument schur_form)))
   \<and> ((rows data \<noteq> cols data \<or> schur_form = None) \<longrightarrow>
      run_rel P this data schur_form unitary = Some (Inl (Rejected InvalidArgument schur_form)))
   \<and> (rows data = cols data \<longrightarrow>
      set_internal_resources this data (Some sf) None = Inl (InvalidArgument, Some data)
      \<and> run_rel P this data (Some sf) None = Some (Inl (Rejected InvalidArgument (Some data)))
      \<and> set_internal_members this data (Some sf) None = Inl (InvalidArgument, Some sf)
      \<and> run_abs P this data (Some sf) None = Some (Inl (Rejected InvalidArgument (Some sf))))
   \<and> (rows data = cols data \<longrightarrow>
      set_internal_members this data (Some sf) (Some un)
        = Inr (this\<lparr>p_schur_form := data, p_unitary := un\<rparr>)
      \<and> set_internal_resources this data (Some sf) (Some un)
        = Inr (this\<lparr>p_schur_form := data, p_unitary := un\<rparr>)
      \<and> run_abs P this data (Some sf) (Some un)
        = later_phase
            (case hessenberg_run P data un of
               Inl e \<Rightarrow> Some (Inl e)
             | Inr (T, U) \<Rightarrow> run_QR_algorithm_abs P (this\<lparr>p_schur_form := T, p_unitary := U\<rparr>))
      \<and> run_rel P this data (Some sf) (Some un)
        = later_phase
            (case hessenberg_run P data un of
               Inl e \<Rightarrow> Some (Inl e)
             | Inr (T, U) \<Rightarrow> run_QR_algorithm_rel P (this\<lparr>p_schur_form := T, p_unitary := U\<rparr>)))"
proof (intro conjI impI)
  assume bad: "rows data \<noteq> cols data \<or> schur_form = None \<or> unitary = None"
  then have "set_internal_members this data schur_form unitary = Inl (InvalidArgument, schur_form)"
    by (auto simp: set_internal_members_def split: option.splits)
  then show "run_abs P this data schur_form unitary = Some (Inl (Rejected InvalidArgument schur_form))"
    by (simp add: run_abs_def)
next
  assume bad: "rows data \<noteq> cols data \<or> schur_form = None"
  then have "set_internal_resources this data schur_form unitary = Inl (InvalidArgument, schur_form)"
    by (auto simp: set_internal_resources_def split: option.splits)
  then show "run_rel P this data schur_form unitary = Some (Inl (Rejected InvalidArgument schur_form))"
    by (simp add: run_rel_def)
next
  assume sq: "rows data = cols data"
  then show r: "set_internal_resources this data (Some sf) None = Inl (InvalidArgument, Some data)"
    by (simp add: set_internal_resources_def)
  then show "run_rel P this data (Some sf) None = Some (Inl (Rejected InvalidArgument (Some data)))"
    by (simp add: run_rel_def)
  from sq show m: "set_internal_members this data (Some sf) None = Inl (InvalidArgument, Some sf)"
    by (simp add: set_internal_members_def)
  then show "run_abs P this data (Some sf) None = Some (Inl (Rejected InvalidArgument (Some sf)))"
    by (simp add: run_abs_def)
next
  assume sq: "rows data = cols data"
  then show m: "set_internal_members this data (Some sf) (Some un)
        = Inr (this\<lparr>p_schur_form := data, p_unitary := un\<rparr>)"
    by (simp add: set_internal_members_def)
  from sq show r: "set_internal_resources this data (Some sf) (Some un)
        = Inr (this\<lparr>p_schur_form := data, p_unitary := un\<rparr>)"
    by (simp add: set_internal_resources_def)
  have h: "(case reduce_to_hessenberg_form P (this\<lparr>p_schur_form := data, p_unitary := un\<rparr>) of
              Inl e \<Rightarrow> Some (Inl e) | Inr st1 \<Rightarrow> f st1)
           = (case hessenberg_run P data un of
                Inl e \<Rightarrow> Some (Inl e)
              | Inr (T, U) \<Rightarrow> f (this\<lparr>p_schur_form := T, p_unitary := U\<rparr>))"
    for f :: "'a schur_decomposition \<Rightarrow> (error + 'a schur_decomposition) option"
    by (simp add: reduce_to_hessenberg_form_def bindE_def split: sum.splits prod.splits)
  show "run_abs P this data (Some sf) (Some un)
        = later_phase
            (case hessenberg_run P data un of
               Inl e \<Rightarrow> Some (Inl e)
             | Inr (T, U) \<Rightarrow> run_QR_algorithm_abs P (this\<lparr>p_schur_form := T, p_unitary := U\<rparr>))"
    by (simp add: run_abs_def m h)
  show "run_rel P this data (Some sf) (Some un)
        = later_phase
            (case hessenberg_run P data un of
               Inl e \<Rightarrow> Some (Inl e)
             | Inr (T, U) \<Rightarrow> run_QR_algorithm_rel P (this\<lparr>p_schur_form := T, p_unitary := U\<rparr>))"
    by (simp add: run_rel_def r h)
qed

theorem run_checks_arguments_witness:
  "rows D23 \<noteq> cols D23
   \<and> run_abs ext_id S4 D23 (Some D2) (Some D2) = Some (Inl (Rejected InvalidArgument (Some D2)))
   \<and> run_rel ext_id S4 D23 (Some D2) (Some D2) = Some (Inl (Rejected InvalidArgument (Some D2)))
   \<and> run_abs ext_id S4 D2 None (Some D2) = Some (Inl (Rejected InvalidArgument None))
   \<and> run_rel ext_id S4 D2 None (Some D2) = Some (Inl (Rejected InvalidArgument None))
   \<and> rows D2 = cols D2 \<and> cols D2 \<noteq> cols D23
   \<and> set_internal_resources S4 D2 (Some D23) None = Inl (InvalidArgument, Some D2)
   \<and> run_rel ext_id S4 D2 (Some D23) None = Some (Inl (Rejected InvalidArgument (Some D2)))
   \<and> set_internal_members S4 D2 (Some D23) None = Inl (InvalidArgument, Some D23)
   \<and> run_abs ext_id S4 D2 (Some D23) None = Some (Inl (Rejected InvalidArgument (Some D23)))
   \<and> set_internal_members S4 D2 (Some D23) (Some D23) = Inr (S4\<lparr>p_schur_form := D2, p_unitary := D23\<rparr>)
   \<and> set_internal_resources S4 D2 (Some D23) (Some D23) = Inr (S4\<lparr>p_schur_form := D2, p_unitary := D23\<rparr>)
   \<and> run_abs ext_id S4 D2 (Some D23) (Some D23)
        = later_phase (run_QR_algorithm_abs ext_id (S4\<lparr>p_schur_form := D2, p_unitary := identity 2\<rparr>))
   \<and> run_rel ext_id S4 D2 (Some D23) (Some D23)
        = later_phase (run_QR_algorithm_rel ext_id (S4\<lparr>p_schur_form := D2, p_unitary := identity 2\<rparr>))"
proof -
  have d: "rows D23 \<noteq> cols D23" "rows D2 = cols D2" "cols D2 \<noteq> cols D23"
    by (simp_all add: D2_def D23_def of_rows_def)
  have h: "hessenberg_run ext_id D2 D23 = Inr (D2, identity 2)"
    by (simp add: ext_id_def D2_def of_rows_def)
  note a = run_checks_arguments[of D23 "Some D2" "Some D2" ext_id S4 D2 D2]
  note b = run_checks_arguments[of D2 None "Some D2" ext_id S4 D2 D2]
  note e = run_checks_arguments[of D2 "Some D23" "Some D23" ext_id S4 D23 D23]
  from a d(1) have A: "run_abs ext_id S4 D23 (Some D2) (Some D2) = Some (Inl (Rejected InvalidArgument (Some D2)))"
    "run_rel ext_id S4 D23 (Some D2) (Some D2) = Some (Inl (Rejected InvalidArgument (Some D2)))"
    by blast+
  from b have B: "run_abs ext_id S4 D2 None (Some D2) = Some (Inl (Rejected InvalidArgument None))"
    "run_rel ext_id S4 D2 None (Some D2) = Some (Inl (Rejected InvalidArgument None))"
    by blast+
  from e d(2) have C:
    "set_internal_resources S4 D2 (Some D23) None = Inl (InvalidArgument, Some D2)"
    "run_rel ext_id S4 D2 (Some D23) None = Some (Inl (Rejected InvalidArgument (Some D2)))"
    "set_internal_members S4 D2 (Some D23) None = Inl (InvalidArgument, Some D23)"
    "run_abs ext_id S4 D2 (Some D23) None = Some (Inl (Rejected InvalidArgument (Some D23)))"
    by blast+
  from e d(2) h have E:
    "set_internal_members S4 D2 (Some D23) (Some D23) = Inr (S4\<lparr>p_schur_form := D2, p_unitary := D23\<rparr>)"
    "set_internal_resources S4 D2 (Some D23) (Some D23) = Inr (S4\<lparr>p_schur_form := D2, p_unitary := D23\<rparr>)"
    "run_abs ext_id S4 D2 (Some D23) (Some D23)
        = later_phase (run_QR_algorithm_abs ext_id (S4\<lparr>p_schur_form := D2, p_unitary := identity 2\<rparr>))"
    "run_rel ext_id S4 D2 (Some D23) (Some D23)
        = later_phase (run_QR_algorithm_rel ext_id (S4\<lparr>p_schur_form := D2, p_unitary := identity 2\<rparr>))"
    by simp_all
  from A B C E d show ?thesis by blast
qed

section \<open>The deflation tests\<close>

lemma set_coeff_zero:
  "0 \<le> i \<Longrightarrow> i < rows m \<Longrightarrow> 0 \<le> j \<Longrightarrow> j < cols m \<Longrightarrow> set_coeff m i j 0 = Inr (zeroed m i j)"
  by (simp add: set_coeff_def zeroed_def)

lemma zero_under_diagonal_in_range:
  "1 \<le> i \<Longrightarrow> i < rows (p_schur_form st) \<Longrightarrow> i < cols (p_schur_form st) \<Longrightarrow>
   zero_under_diagonal st i =
     Inr (\<bar>coeff (p_schur_form st) i (i - 1)\<bar>
            < precision st * (\<bar>coeff (p_schur_form st) i i\<bar> + \<bar>coeff (p_schur_form st) (i - 1) (i - 1)\<bar>))"
  by (simp add: zero_under_diagonal_def get_coeff_def)

text \<open>
  C2. One deflation step, at a state with \<open>2 \<le> cur_size < n\<close>. The entry
  \<open>(cur_size, cur_size - 1)\<close> is tested first; if it is below the tolerance it is zeroed and
  \<open>cur_size\<close> drops by 1. Only otherwise is \<open>(cur_size - 1, cur_size - 2)\<close> tested; if that is
  below the tolerance it is zeroed and \<open>cur_size\<close> drops by 2 in this one step, and the
  entry \<open>(cur_size, cur_size - 1)\<close> inside the 2 by 2 block keeps its value: the block is
  not split. The absolute-threshold \<open>try_deflate\<close> stops after the step; the
  relative-threshold \<open>try_to_deflate\<close> repeats it on the new state.
\<close>

theorem deflation_step_order:
  fixes st :: "'a::linordered_idom schur_decomposition"
  assumes "T = p_schur_form st" and "c = cur_size st"
    and "rows T = n" and "cols T = n" and "2 \<le> c" and "c < n"
    and "one = st\<lparr>p_schur_form := zeroed T c (c - 1), cur_size := c - 1\<rparr>"
    and "two = st\<lparr>p_schur_form := zeroed T (c - 1) (c - 2), cur_size := c - 2\<rparr>"
  shows "try_deflate st =
           (if \<bar>coeff T c (c - 1)\<bar> < precision st then Inr one
            else if \<bar>coeff T (c - 1) (c - 2)\<bar> < precision st then Inr two
            else Inr st)
       \<and> try_to_deflate st =
           (if \<bar>coeff T c (c - 1)\<bar> < precision st * (\<bar>coeff T c c\<bar> + \<bar>coeff T (c - 1) (c - 1)\<bar>)
            then try_to_deflate one
            else if \<bar>coeff T (c - 1) (c - 2)\<bar>
                      < precision st * (\<bar>coeff T (c - 1) (c - 1)\<bar> + \<bar>coeff T (c - 2) (c - 2)\<bar>)
            then try_to_deflate two
            else Inr st)
       \<and> coeff (p_schur_form one) c (c - 1) = 0
       \<and> coeff (p_schur_form two) (c - 1) (c - 2) = 0
       \<and> coeff (p_schur_form two) c (c - 1) = coeff T c (c - 1)
       \<and> cur_size one = c - 1 \<and> cur_size two = c - 2"
proof -
  have a: "try_deflate st =
           (if \<bar>coeff T c (c - 1)\<bar> < precision st then Inr one
            else if \<bar>coeff T (c - 1) (c - 2)\<bar> < precision st then Inr two
            else Inr st)"
    using assms
    by (simp add: try_deflate_def get_coeff_def near_zero_def deflate_once_def deflate_twice_def
        set_coeff_zero)
  have z1: "zero_under_diagonal st c =
     Inr (\<bar>coeff T c (c - 1)\<bar> < precision st * (\<bar>coeff T c c\<bar> + \<bar>coeff T (c - 1) (c - 1)\<bar>))"
    using assms by (simp add: zero_under_diagonal_in_range)
  have z2: "zero_under_diagonal st (c - 1) =
     Inr (\<bar>coeff T (c - 1) (c - 2)\<bar>
            < precision st * (\<bar>coeff T (c - 1) (c - 1)\<bar> + \<bar>coeff T (c - 2) (c - 2)\<bar>))"
    using assms zero_under_diagonal_in_range[of "c - 1" st] by (simp add: diff_diff_eq)
  have d1: "decrement_cur_size st 1 = Inr one"
    using assms by (simp add: decrement_cur_size_def set_coeff_zero)
  have d2: "decrement_cur_size st 2 = Inr two"
    using assms by (simp add: decrement_cur_size_def set_coeff_zero)
  have b: "try_to_deflate st =
           (if \<bar>coeff T c (c - 1)\<bar> < precision st * (\<bar>coeff T c c\<bar> + \<bar>coeff T (c - 1) (c - 1)\<bar>)
            then try_to_deflate one
            else if \<bar>coeff T (c - 1) (c - 2)\<bar>
                      < precision st * (\<bar>coeff T (c - 1) (c - 1)\<bar> + \<bar>coeff T (c - 2) (c - 2)\<bar>)
            then try_to_deflate two
            else Inr st)"
    using assms(2) z1 z2 d1 d2 by (subst try_to_deflate.simps) simp
  have e: "coeff (p_schur_form one) c (c - 1) = 0"
    "coeff (p_schur_form two) (c - 1) (c - 2) = 0"
    "coeff (p_schur_form two) c (c - 1) = coeff T c (c - 1)"
    "cur_size one = c - 1" "cur_size two = c - 2"
    using assms by (simp_all add: zeroed_def)
  from a b e show ?thesis by simp
qed


theorem deflation_step_order_witness:
  "rows (p_schur_form S5) = 5 \<and> cols (p_schur_form S5) = 5 \<and> 2 \<le> cur_size S5 \<and> cur_size S5 < 5
   \<and> \<not> \<bar>coeff (p_schur_form S5) 4 3\<bar> < precision S5
   \<and> \<bar>coeff (p_schur_form S5) 3 2\<bar> < precision S5
   \<and> try_deflate S5 = Inr (S5\<lparr>p_schur_form := zeroed (p_schur_form S5) 3 2, cur_size := 2\<rparr>)
   \<and> try_to_deflate S5
       = try_to_deflate (S5\<lparr>p_schur_form := zeroed (p_schur_form S5) 3 2, cur_size := 2\<rparr>)
   \<and> coeff (zeroed (p_schur_form S5) 3 2) 4 3 = coeff (p_schur_form S5) 4 3"
proof -
  have h: "rows (p_schur_form S5) = 5" "cols (p_schur_form S5) = 5" "2 \<le> (4::int)" "(4::int) < 5"
    "4 = cur_size S5"
    by (simp_all add: S5_def)
  have v: "\<not> \<bar>coeff (p_schur_form S5) 4 3\<bar> < precision S5"
    "\<bar>coeff (p_schur_form S5) 3 2\<bar> < precision S5"
    "\<not> \<bar>coeff (p_schur_form S5) 4 3\<bar>
        < precision S5 * (\<bar>coeff (p_schur_form S5) 4 4\<bar> + \<bar>coeff (p_schur_form S5) 3 3\<bar>)"
    "\<bar>coeff (p_schur_form S5) 3 2\<bar>
        < precision S5 * (\<bar>coeff (p_schur_form S5) 3 3\<bar> + \<bar>coeff (p_schur_form S5) 2 2\<bar>)"
    by (simp_all add: S5_def)
  from deflation_step_order[OF refl h(5) h(1,2,3,4) refl refl] v h
  show ?thesis by simp
qed

lemma try_to_deflate_final:
  "try_to_deflate st = Inr st' \<Longrightarrow>
     zero_under_diagonal st' (cur_size st') = Inr False
     \<and> zero_under_diagonal st' (cur_size st' - 1) = Inr False"
proof (induction st rule: try_to_deflate.induct)
  case (1 st)
  obtain b1 where b1: "zero_under_diagonal st (cur_size st) = Inr b1"
    using "1.prems" by (subst (asm) try_to_deflate.simps) (auto split: sum.splits)
  show ?case
  proof (cases b1)
    case True
    with b1 "1.prems" obtain s where s: "decrement_cur_size st 1 = Inr s"
      and r: "try_to_deflate s = Inr st'"
      by (subst (asm) try_to_deflate.simps) (auto split: sum.splits)
    from "1.IH"(1)[OF b1 True s r] show ?thesis .
  next
    case False
    with b1 "1.prems" obtain b2 where b2: "zero_under_diagonal st (cur_size st - 1) = Inr b2"
      by (subst (asm) try_to_deflate.simps) (auto split: sum.splits)
    show ?thesis
    proof (cases b2)
      case True
      with b1 False b2 "1.prems" obtain s where s: "decrement_cur_size st 2 = Inr s"
        and r: "try_to_deflate s = Inr st'"
        by (subst (asm) try_to_deflate.simps) (auto split: sum.splits)
      from "1.IH"(2)[OF b1 False b2 True s r] show ?thesis .
    next
      case b2F: False
      with b1 False b2 "1.prems" have "st' = st"
        by (subst (asm) try_to_deflate.simps) simp
      with b1 False b2 b2F show ?thesis by simp
    qed
  qed
qed

lemma try_deflate_in_range:
  fixes st :: "'a::linordered_idom schur_decomposition"
  assumes "T = p_schur_form st" and "rows T = n" and "cols T = n"
    and "2 \<le> cur_size st" and "cur_size st < n"
  shows "try_deflate st =
           (if \<bar>coeff T (cur_size st) (cur_size st - 1)\<bar> < precision st
            then Inr (st\<lparr>p_schur_form := zeroed T (cur_size st) (cur_size st - 1),
                        cur_size := cur_size st - 1\<rparr>)
            else if \<bar>coeff T (cur_size st - 1) (cur_size st - 2)\<bar> < precision st
            then Inr (st\<lparr>p_schur_form := zeroed T (cur_size st - 1) (cur_size st - 2),
                        cur_size := cur_size st - 2\<rparr>)
            else Inr st)"
  using assms
  by (simp add: try_deflate_def get_coeff_def near_zero_def deflate_once_def deflate_twice_def
      set_coeff_zero)

text \<open>
  C1, as amended. In the relative-threshold implementation every deflation test compares
  \<open>\<bar>T(i, i - 1)\<bar>\<close> with \<open>precision * (\<bar>T(i, i)\<bar> + \<bar>T(i - 1, i - 1)\<bar>)\<close>; the tests run
  once before the first QR iteration and again after every sweep; a test that fires is
  followed by the tests on the decremented state, and when the cascade returns neither
  test fires on the state it returns. In the absolute-threshold implementation the test
  is \<open>\<bar>T(i, i - 1)\<bar> < precision\<close>; \<open>try_deflate\<close> makes at most one deflation and returns,
  it runs once after each sweep (after \<open>start\<close>, \<open>process\<close> and \<open>finish\<close>), and the QR phase
  begins with a sweep, not with a test.
\<close>

theorem relative_deflation_tests:
  fixes st :: "'a::linordered_idom schur_decomposition"
  assumes "T = p_schur_form st" and "rows T = n" and "cols T = n"
  shows
   "(1 \<le> i \<and> i < n \<longrightarrow>
       zero_under_diagonal st i
         = Inr (\<bar>coeff T i (i - 1)\<bar> < precision st * (\<bar>coeff T i i\<bar> + \<bar>coeff T (i - 1) (i - 1)\<bar>)))
    \<and> (3 \<le> n \<longrightarrow>
       run_QR_algorithm_rel P st
         = (case try_to_deflate (st\<lparr>cur_size := n - 1\<rparr>) of
              Inl e \<Rightarrow> Some (Inl e)
            | Inr s \<Rightarrow> QR_loop_rel P s))
    \<and> (2 \<le> cur_size st \<longrightarrow>
       QR_loop_rel P st
         = (case make_QR_iteration P st of
              Inl e \<Rightarrow> Some (Inl e)
            | Inr s1 \<Rightarrow>
                (case try_to_deflate s1 of
                   Inl e \<Rightarrow> Some (Inl e)
                 | Inr s2 \<Rightarrow> QR_loop_rel P s2)))
    \<and> (zero_under_diagonal st (cur_size st) = Inr True \<longrightarrow>
       try_to_deflate st = bindE (decrement_cur_size st 1) try_to_deflate)
    \<and> (zero_under_diagonal st (cur_size st) = Inr False
         \<and> zero_under_diagonal st (cur_size st - 1) = Inr True \<longrightarrow>
       try_to_deflate st = bindE (decrement_cur_size st 2) try_to_deflate)
    \<and> (try_to_deflate st = Inr st' \<longrightarrow>
       zero_under_diagonal st' (cur_size st') = Inr False
       \<and> zero_under_diagonal st' (cur_size st' - 1) = Inr False)
    \<and> (2 \<le> cur_size st \<and> cur_size st < n \<longrightarrow>
       try_deflate st =
         (if \<bar>coeff T (cur_size st) (cur_size st - 1)\<bar> < precision st
          then Inr (st\<lparr>p_schur_form := zeroed T (cur_size st) (cur_size st - 1),
                      cur_size := cur_size st - 1\<rparr>)
          else if \<bar>coeff T (cur_size st - 1) (cur_size st - 2)\<bar> < precision st
          then Inr (st\<lparr>p_schur_form := zeroed T (cur_size st - 1) (cur_size st - 2),
                      cur_size := cur_size st - 2\<rparr>)
          else Inr st))
    \<and> (2 \<le> cur_size st \<longrightarrow>
       QR_loop_abs P st
         = (case bindE (start P st) (\<lambda>s1. bindE (process P s1) (finish P)) of
              Inl e \<Rightarrow> Some (Inl e)
            | Inr s3 \<Rightarrow>
                (case try_deflate s3 of
                   Inl e \<Rightarrow> Some (Inl e)
                 | Inr s4 \<Rightarrow> QR_loop_abs P s4)))
    \<and> run_QR_algorithm_abs P st = QR_loop_abs P (st\<lparr>cur_size := n - 1\<rparr>)"
proof (intro conjI impI)
  assume "1 \<le> i \<and> i < n"
  with assms show "zero_under_diagonal st i
         = Inr (\<bar>coeff T i (i - 1)\<bar> < precision st * (\<bar>coeff T i i\<bar> + \<bar>coeff T (i - 1) (i - 1)\<bar>))"
    by (simp add: zero_under_diagonal_in_range)
next
  assume "3 \<le> n"
  with assms show "run_QR_algorithm_rel P st
         = (case try_to_deflate (st\<lparr>cur_size := n - 1\<rparr>) of
              Inl e \<Rightarrow> Some (Inl e)
            | Inr s \<Rightarrow> QR_loop_rel P s)"
    by (simp add: run_QR_algorithm_rel_def size_schur_def)
next
  assume "2 \<le> cur_size st"
  then show "QR_loop_rel P st
         = (case make_QR_iteration P st of
              Inl e \<Rightarrow> Some (Inl e)
            | Inr s1 \<Rightarrow>
                (case try_to_deflate s1 of
                   Inl e \<Rightarrow> Some (Inl e)
                 | Inr s2 \<Rightarrow> QR_loop_rel P s2))"
    by (subst QR_loop_rel.simps) (simp add: bindE_def split: sum.splits)
next
  assume "zero_under_diagonal st (cur_size st) = Inr True"
  then show "try_to_deflate st = bindE (decrement_cur_size st 1) try_to_deflate"
    by (subst try_to_deflate.simps) (simp add: bindE_def)
next
  assume "zero_under_diagonal st (cur_size st) = Inr False
         \<and> zero_under_diagonal st (cur_size st - 1) = Inr True"
  then show "try_to_deflate st = bindE (decrement_cur_size st 2) try_to_deflate"
    by (subst try_to_deflate.simps) (simp add: bindE_def)
next
  assume "try_to_deflate st = Inr st'"
  then show "zero_under_diagonal st' (cur_size st') = Inr False"
    and "zero_under_diagonal st' (cur_size st' - 1) = Inr False"
    using try_to_deflate_final by blast+
next
  assume h: "2 \<le> cur_size st \<and> cur_size st < n"
  from h try_deflate_in_range[OF assms] show "try_deflate st =
         (if \<bar>coeff T (cur_size st) (cur_size st - 1)\<bar> < precision st
          then Inr (st\<lparr>p_schur_form := zeroed T (cur_size st) (cur_size st - 1),
                      cur_size := cur_size st - 1\<rparr>)
          else if \<bar>coeff T (cur_size st - 1) (cur_size st - 2)\<bar> < precision st
          then Inr (st\<lparr>p_schur_form := zeroed T (cur_size st - 1) (cur_size st - 2),
                      cur_size := cur_size st - 2\<rparr>)
          else Inr st)"
    by blast
next
  assume "2 \<le> cur_size st"
  then show "QR_loop_abs P st
         = (case bindE (start P st) (\<lambda>s1. bindE (process P s1) (finish P)) of
              Inl e \<Rightarrow> Some (Inl e)
            | Inr s3 \<Rightarrow>
                (case try_deflate s3 of
                   Inl e \<Rightarrow> Some (Inl e)
                 | Inr s4 \<Rightarrow> QR_loop_abs P s4))"
    by (subst QR_loop_abs.simps) (simp add: QR_iteration_abs_def bindE_def split: sum.splits)
next
  show "run_QR_algorithm_abs P st = QR_loop_abs P (st\<lparr>cur_size := n - 1\<rparr>)"
    using assms by (simp add: run_QR_algorithm_abs_def size_schur_def)
qed

text \<open>
  C1 as stated fails for the absolute-threshold implementation: its test is
  \<open>\<bar>T(i, i - 1)\<bar> < precision\<close>. On the state below the entry (2, 1) is under the relative
  tolerance, and \<open>try_deflate\<close> deflates nothing.
\<close>

theorem absolute_test_is_not_relative:
  "\<bar>coeff (p_schur_form S_relative_only) 2 1\<bar>
     < precision S_relative_only
       * (\<bar>coeff (p_schur_form S_relative_only) 2 2\<bar> + \<bar>coeff (p_schur_form S_relative_only) 1 1\<bar>)
   \<and> cur_size S_relative_only = 2
   \<and> zero_under_diagonal S_relative_only 2 = Inr True
   \<and> try_deflate S_relative_only = Inr S_relative_only"
  by (simp add: S_relative_only_def of_rows_def zero_under_diagonal_def get_coeff_def
      try_deflate_def near_zero_def)


theorem relative_deflation_tests_witness:
  "rows (p_schur_form S4) = 4 \<and> cols (p_schur_form S4) = 4
   \<and> zero_under_diagonal S4 3
        = Inr (\<bar>coeff (p_schur_form S4) 3 2\<bar>
                 < precision S4 * (\<bar>coeff (p_schur_form S4) 3 3\<bar> + \<bar>coeff (p_schur_form S4) 2 2\<bar>))
   \<and> run_QR_algorithm_rel ext_id S4
        = (case try_to_deflate (S4\<lparr>cur_size := 3\<rparr>) of
             Inl e \<Rightarrow> Some (Inl e)
           | Inr s \<Rightarrow> QR_loop_rel ext_id s)
   \<and> 2 \<le> cur_size S4
   \<and> QR_loop_rel ext_id S4
        = (case make_QR_iteration ext_id S4 of
             Inl e \<Rightarrow> Some (Inl e)
           | Inr s1 \<Rightarrow>
               (case try_to_deflate s1 of
                  Inl e \<Rightarrow> Some (Inl e)
                | Inr s2 \<Rightarrow> QR_loop_rel ext_id s2))
   \<and> zero_under_diagonal S4 (cur_size S4) = Inr True
   \<and> try_to_deflate S4 = bindE (decrement_cur_size S4 1) try_to_deflate
   \<and> zero_under_diagonal S5 (cur_size S5) = Inr False
   \<and> zero_under_diagonal S5 (cur_size S5 - 1) = Inr True
   \<and> try_to_deflate S5 = bindE (decrement_cur_size S5 2) try_to_deflate
   \<and> (\<exists>st'. try_to_deflate S4 = Inr st'
          \<and> zero_under_diagonal st' (cur_size st') = Inr False
          \<and> zero_under_diagonal st' (cur_size st' - 1) = Inr False)
   \<and> cur_size S4 < 4
   \<and> try_deflate S4 = Inr (S4\<lparr>p_schur_form := zeroed (p_schur_form S4) 3 2, cur_size := 2\<rparr>)
   \<and> QR_loop_abs ext_id S4
        = (case bindE (start ext_id S4) (\<lambda>s1. bindE (process ext_id s1) (finish ext_id)) of
             Inl e \<Rightarrow> Some (Inl e)
           | Inr s3 \<Rightarrow>
               (case try_deflate s3 of
                  Inl e \<Rightarrow> Some (Inl e)
                | Inr s4 \<Rightarrow> QR_loop_abs ext_id s4))
   \<and> run_QR_algorithm_abs ext_id S4 = QR_loop_abs ext_id (S4\<lparr>cur_size := 3\<rparr>)"
proof -
  have d: "rows (p_schur_form S4) = 4" "cols (p_schur_form S4) = 4" "cur_size S4 = 3"
    by (simp_all add: S4_def T4_def of_rows_def)
  have d5: "rows (p_schur_form S5) = 5" "cols (p_schur_form S5) = 5"
    by (simp_all add: S5_def)
  have z4: "zero_under_diagonal S4 (cur_size S4) = Inr True"
    by (simp add: zero_under_diagonal_def get_coeff_def S4_def T4_def of_rows_def)
  have z5: "zero_under_diagonal S5 (cur_size S5) = Inr False"
    "zero_under_diagonal S5 (cur_size S5 - 1) = Inr True"
    by (simp_all add: zero_under_diagonal_def get_coeff_def S5_def)
  obtain st' where r: "try_to_deflate S4 = Inr st'"
    using try_to_deflate_example by blast
  note A = relative_deflation_tests[OF refl d(1,2), of 3 ext_id st']
  note B = relative_deflation_tests[OF refl d5, of 3 ext_id st']
  have 1: "zero_under_diagonal S4 3
        = Inr (\<bar>coeff (p_schur_form S4) 3 2\<bar>
                 < precision S4 * (\<bar>coeff (p_schur_form S4) 3 3\<bar> + \<bar>coeff (p_schur_form S4) 2 2\<bar>))"
    using A by simp
  have 2: "run_QR_algorithm_rel ext_id S4
        = (case try_to_deflate (S4\<lparr>cur_size := 3\<rparr>) of
             Inl e \<Rightarrow> Some (Inl e)
           | Inr s \<Rightarrow> QR_loop_rel ext_id s)"
    using A by simp
  have 3: "QR_loop_rel ext_id S4
        = (case make_QR_iteration ext_id S4 of
             Inl e \<Rightarrow> Some (Inl e)
           | Inr s1 \<Rightarrow>
               (case try_to_deflate s1 of
                  Inl e \<Rightarrow> Some (Inl e)
                | Inr s2 \<Rightarrow> QR_loop_rel ext_id s2))"
    using A d(3) by simp
  have 4: "try_to_deflate S4 = bindE (decrement_cur_size S4 1) try_to_deflate"
    using A z4 by blast
  have 5: "try_to_deflate S5 = bindE (decrement_cur_size S5 2) try_to_deflate"
    using B z5 by blast
  have 6: "zero_under_diagonal st' (cur_size st') = Inr False
          \<and> zero_under_diagonal st' (cur_size st' - 1) = Inr False"
    using A r by blast
  have 7: "2 \<le> cur_size S4" using d(3) by simp
  have 8: "cur_size S4 < 4" using d(3) by simp
  have v: "\<bar>coeff (p_schur_form S4) 3 2\<bar> < precision S4"
    by (simp add: S4_def T4_def of_rows_def)
  have 9: "try_deflate S4 = Inr (S4\<lparr>p_schur_form := zeroed (p_schur_form S4) 3 2, cur_size := 2\<rparr>)"
    using A d(3) v by simp
  have 10: "QR_loop_abs ext_id S4
        = (case bindE (start ext_id S4) (\<lambda>s1. bindE (process ext_id s1) (finish ext_id)) of
             Inl e \<Rightarrow> Some (Inl e)
           | Inr s3 \<Rightarrow>
               (case try_deflate s3 of
                  Inl e \<Rightarrow> Some (Inl e)
                | Inr s4 \<Rightarrow> QR_loop_abs ext_id s4))"
    using A 7 by blast
  have 11: "run_QR_algorithm_abs ext_id S4 = QR_loop_abs ext_id (S4\<lparr>cur_size := 3\<rparr>)"
    using A by simp
  from d(1,2) 1 2 3 4 5 6 7 8 9 10 11 z4 z5 r show ?thesis by blast
qed

section \<open>Writing through a view\<close>

lemma coeff_write_block_outside:
  "i < r \<or> r + nr \<le> i \<or> j < c \<or> c + nc \<le> j \<Longrightarrow>
   coeff (write_block m r c nr nc b) i j = coeff m i j"
  by (auto simp: write_block_def)

lemma coeff_write_block_inside:
  "r \<le> i \<Longrightarrow> i < r + nr \<Longrightarrow> c \<le> j \<Longrightarrow> j < c + nc \<Longrightarrow>
   coeff (write_block m r c nr nc b) i j = coeff b (i - r) (j - c)"
  by (simp add: write_block_def)

lemma write_block_dims:
  "rows (write_block m r c nr nc b) = rows m \<and> cols (write_block m r c nr nc b) = cols m"
  by (simp add: write_block_def)

section \<open>The starter column of the double shift\<close>

lemma find_bottom_corner_trace_in_range:
  "1 \<le> cur_size st \<Longrightarrow> cur_size st < rows (p_schur_form st) \<Longrightarrow> cur_size st < cols (p_schur_form st) \<Longrightarrow>
   find_bottom_corner_trace st
     = Inr (coeff (p_schur_form st) (cur_size st - 1) (cur_size st - 1)
            + coeff (p_schur_form st) (cur_size st) (cur_size st))"
  by (simp add: find_bottom_corner_trace_def block_def)

lemma find_bottom_corner_det_in_range:
  "1 \<le> cur_size st \<Longrightarrow> cur_size st < rows (p_schur_form st) \<Longrightarrow> cur_size st < cols (p_schur_form st) \<Longrightarrow>
   find_bottom_corner_det st
     = Inr (coeff (p_schur_form st) (cur_size st - 1) (cur_size st - 1)
              * coeff (p_schur_form st) (cur_size st) (cur_size st)
            - coeff (p_schur_form st) (cur_size st - 1) (cur_size st)
              * coeff (p_schur_form st) (cur_size st) (cur_size st - 1))"
  by (simp add: find_bottom_corner_det_def block_def)

lemma upt_3: "[0..<3] = [0, 1, 2]"
  by (simp add: upt_rec)

lemma find_starter_column_in_range:
  assumes "2 \<le> cur_size st" "cur_size st < rows (p_schur_form st)"
    "cur_size st < cols (p_schur_form st)"
  shows "find_starter_column st = Inr (starter_reference st)"
  using assms
  by (simp add: find_starter_column_def find_bottom_corner_trace_in_range
      find_bottom_corner_det_in_range block_def Let_def col_vector_def mat_add_def mat_sub_def
      mat_mul_def scalar_mul_def identity_def starter_reference_def upt_3)

lemma find_matching_column_in_range:
  assumes "2 \<le> cur_size st" "cur_size st < rows (p_schur_form st)"
    "cur_size st < cols (p_schur_form st)" "coeff (p_schur_form st) 2 0 = 0"
  shows "find_matching_column st = Inr (starter_reference st)"
  using assms
  by (simp add: find_matching_column_def find_bottom_corner_trace_in_range
      find_bottom_corner_det_in_range get_coeff_def Let_def starter_reference_def algebra_simps)

lemma upper_hessenberg_entry_2_0:
  assumes "upper_hessenberg m" and "3 \<le> rows m"
  shows "coeff m 2 0 = 0"
proof -
  have "(2::nat) \<in> set [0..<nat (rows m)]" using assms(2) by simp
  moreover have "(0::nat) \<in> set [0..<2 - 1]" by simp
  ultimately have "coeff m (int 2) (int 0) = 0"
    using assms(1) unfolding upper_hessenberg_def list_all_iff by blast
  then show ?thesis by simp
qed

text \<open>
  C3. At the start of a QR iteration (\<open>2 \<le> cur_size < n\<close>) the matrix expression of the
  absolute-threshold implementation returns the reference vector: the first column of
  \<open>M\<^sup>2 - trace M + det I\<close> for the leading 3 by 3 block \<open>M\<close>, with trace and determinant
  of the trailing 2 by 2 block of the active region. The three explicit entries of the
  relative-threshold implementation return the same vector whenever the Schur form is
  upper Hessenberg (they leave out the products with the entry (2, 0)).
\<close>

theorem starter_column_is_reference:
  fixes st :: "'a::linordered_idom schur_decomposition"
  assumes "rows (p_schur_form st) = n" and "cols (p_schur_form st) = n"
    and "2 \<le> cur_size st" and "cur_size st < n"
  shows "find_starter_column st = Inr (starter_reference st)
       \<and> (upper_hessenberg (p_schur_form st) \<longrightarrow>
            find_matching_column st = Inr (starter_reference st))"
proof -
  have "coeff (p_schur_form st) 2 0 = 0" if "upper_hessenberg (p_schur_form st)"
    using that assms by (simp add: upper_hessenberg_entry_2_0)
  with assms show ?thesis
    by (simp add: find_starter_column_in_range find_matching_column_in_range)
qed

lemma upper_hessenberg_T4: "upper_hessenberg (p_schur_form S4)"
  by (simp add: upper_hessenberg_def S4_def T4_def of_rows_def upt_rec)

theorem starter_column_is_reference_witness:
  "rows (p_schur_form S4) = 4 \<and> cols (p_schur_form S4) = 4 \<and> 2 \<le> cur_size S4 \<and> cur_size S4 < 4
   \<and> upper_hessenberg (p_schur_form S4)
   \<and> starter_reference S4 = [1, 0, 1]
   \<and> find_starter_column S4 = Inr [1, 0, 1]
   \<and> find_matching_column S4 = Inr [1, 0, 1]"
proof -
  have d: "rows (p_schur_form S4) = 4" "cols (p_schur_form S4) = 4" "2 \<le> cur_size S4"
    "cur_size S4 < 4"
    by (simp_all add: S4_def T4_def of_rows_def)
  have r: "starter_reference S4 = [1, 0, 1]"
    by (simp add: starter_reference_def S4_def T4_def of_rows_def)
  from starter_column_is_reference[OF d] upper_hessenberg_T4 d r show ?thesis by simp
qed


section \<open>The band of the right application\<close>

lemma schur_reflect_right_unfold:
  assumes "block (p_schur_form st) 0 (step + 1) (min (cur_size st) (step + 4) + 1) len = Inr b"
  shows "schur_reflect_right P reflector step len st
           = bindE (reflect_right P reflector b)
               (\<lambda>b'. Inr (st\<lparr>p_schur_form :=
                   write_block (p_schur_form st) 0 (step + 1) (min (cur_size st) (step + 4) + 1) len b'\<rparr>))"
  unfolding schur_reflect_right_def in_block_def using assms
  by (cases "reflect_right P reflector b") simp_all

lemma block_in_range:
  "0 \<le> r \<Longrightarrow> 0 \<le> nr \<Longrightarrow> r \<le> rows m - nr \<Longrightarrow> 0 \<le> c \<Longrightarrow> 0 \<le> nc \<Longrightarrow> c \<le> cols m - nc \<Longrightarrow>
   block m r c nr nc = Inr \<lparr>rows = nr, cols = nc, coeff = \<lambda>i j. coeff m (r + i) (c + j)\<rparr>"
  by (simp add: block_def)


text \<open>
  C6. In a bulge-chase step \<open>0 \<le> step \<le> cur_size - 3\<close> the right application of the
  reflector works on the view of rows 0 to \<open>min cur_size (step + 4)\<close> and columns
  \<open>step + 1\<close> to \<open>step + 3\<close>, which lies inside the matrix. Whatever the reflector writes,
  every entry of the Schur form in a row below that band or in a column outside the three
  columns keeps its value, and so do the dimensions, the unitary matrix, \<open>cur_size\<close> and
  the precision.
\<close>

theorem right_application_band:
  assumes T: "T = p_schur_form st" and "rows T = n" and "cols T = n" and "cur_size st < n"
    and "0 \<le> step" and "step \<le> cur_size st - 3"
    and band: "band = min (cur_size st) (step + 4) + 1"
  shows "\<exists>b. block T 0 (step + 1) band 3 = Inr b \<and> rows b = band \<and> cols b = 3
          \<and> schur_reflect_right P reflector step 3 st
              = bindE (reflect_right P reflector b)
                  (\<lambda>b'. Inr (st\<lparr>p_schur_form := write_block T 0 (step + 1) band 3 b'\<rparr>))
          \<and> (\<forall>st'. schur_reflect_right P reflector step 3 st = Inr st' \<longrightarrow>
                rows (p_schur_form st') = n \<and> cols (p_schur_form st') = n
                \<and> p_unitary st' = p_unitary st \<and> cur_size st' = cur_size st
                \<and> precision st' = precision st
                \<and> (\<forall>i j. band \<le> i \<or> i < 0 \<or> j < step + 1 \<or> step + 3 < j \<longrightarrow>
                      coeff (p_schur_form st') i j = coeff T i j))"
proof -
  define b where "b = \<lparr>rows = band, cols = 3, coeff = \<lambda>i j. coeff T (0 + i) (step + 1 + j)\<rparr>"
  have range: "0 \<le> band" "0 \<le> rows T - band" "step + 1 \<le> cols T - 3"
    using assms by auto
  have blk: "block T 0 (step + 1) band 3 = Inr b"
    unfolding b_def using range assms(5) by (intro block_in_range) auto
  have dims: "rows b = band" "cols b = 3" by (simp_all add: b_def)
  have eq: "schur_reflect_right P reflector step 3 st
              = bindE (reflect_right P reflector b)
                  (\<lambda>b'. Inr (st\<lparr>p_schur_form := write_block T 0 (step + 1) band 3 b'\<rparr>))"
    using schur_reflect_right_unfold[of st step 3 b P reflector] blk
    unfolding T band by blast
  have frame: "rows (p_schur_form st') = n \<and> cols (p_schur_form st') = n
                \<and> p_unitary st' = p_unitary st \<and> cur_size st' = cur_size st
                \<and> precision st' = precision st
                \<and> (\<forall>i j. band \<le> i \<or> i < 0 \<or> j < step + 1 \<or> step + 3 < j \<longrightarrow>
                      coeff (p_schur_form st') i j = coeff T i j)"
    if r: "schur_reflect_right P reflector step 3 st = Inr st'" for st'
  proof -
    from r eq obtain b' where
      st': "st' = st\<lparr>p_schur_form := write_block T 0 (step + 1) band 3 b'\<rparr>"
      by (auto simp: bindE_Inr_iff)
    have out: "coeff (write_block T 0 (step + 1) band 3 b') i j = coeff T i j"
      if "band \<le> i \<or> i < 0 \<or> j < step + 1 \<or> step + 3 < j" for i j
      using that by (intro coeff_write_block_outside) auto
    have "rows (p_schur_form st') = n" "cols (p_schur_form st') = n"
      using st' assms(2,3) by (simp_all add: write_block_dims)
    moreover have "p_unitary st' = p_unitary st" "cur_size st' = cur_size st"
      "precision st' = precision st"
      using st' by simp_all
    moreover have "\<forall>i j. band \<le> i \<or> i < 0 \<or> j < step + 1 \<or> step + 3 < j \<longrightarrow>
                      coeff (p_schur_form st') i j = coeff T i j"
      using out st' by simp
    ultimately show ?thesis by blast
  qed
  show ?thesis
  proof (intro exI[of _ b] conjI allI impI)
    show "block T 0 (step + 1) band 3 = Inr b" by (rule blk)
    show "rows b = band" "cols b = 3" by (rule dims)+
    show "schur_reflect_right P reflector step 3 st
              = bindE (reflect_right P reflector b)
                  (\<lambda>b'. Inr (st\<lparr>p_schur_form := write_block T 0 (step + 1) band 3 b'\<rparr>))"
      by (rule eq)
  next
    fix st' assume r: "schur_reflect_right P reflector step 3 st = Inr st'"
    from frame[OF r] show "rows (p_schur_form st') = n" "cols (p_schur_form st') = n"
      "p_unitary st' = p_unitary st" "cur_size st' = cur_size st" "precision st' = precision st"
      by blast+
    fix i j assume "band \<le> i \<or> i < 0 \<or> j < step + 1 \<or> step + 3 < j"
    with frame[OF r] show "coeff (p_schur_form st') i j = coeff T i j" by blast
  qed
qed


lemma schur_reflect_right_example:
  "schur_reflect_right ext_bump [] 0 3 S6
     = Inr (S6\<lparr>p_schur_form := write_block (p_schur_form S6) 0 1 5 3
              \<lparr>rows = 5, cols = 3, coeff = \<lambda>i j. coeff (p_schur_form S6) i (1 + j) + 1\<rparr>\<rparr>)"
proof -
  have b: "block (p_schur_form S6) 0 (0 + 1) (min (cur_size S6) (0 + 4) + 1) 3
             = Inr \<lparr>rows = 5, cols = 3, coeff = \<lambda>i j. coeff (p_schur_form S6) (0 + i) (1 + j)\<rparr>"
    by (simp add: block_def S6_def)
  have c: "min (cur_size S6) (0 + 4) + 1 = 5" by (simp add: S6_def)
  show ?thesis
    unfolding schur_reflect_right_unfold[OF b] c
    by (simp add: ext_bump_def)
qed

theorem right_application_band_witness:
  "rows (p_schur_form S6) = 6 \<and> cols (p_schur_form S6) = 6 \<and> cur_size S6 < 6
   \<and> (0::int) \<le> 0 \<and> 0 \<le> cur_size S6 - 3 \<and> min (cur_size S6) (0 + 4) + 1 = 5
   \<and> (\<exists>st'. schur_reflect_right ext_bump [] 0 3 S6 = Inr st'
         \<and> coeff (p_schur_form st') 5 1 = coeff (p_schur_form S6) 5 1
         \<and> coeff (p_schur_form st') 5 4 = coeff (p_schur_form S6) 5 4
         \<and> coeff (p_schur_form st') 0 0 = coeff (p_schur_form S6) 0 0
         \<and> coeff (p_schur_form st') 2 4 = coeff (p_schur_form S6) 2 4
         \<and> coeff (p_schur_form st') 4 3 = coeff (p_schur_form S6) 4 3 + 1
         \<and> coeff (p_schur_form st') 0 1 = coeff (p_schur_form S6) 0 1 + 1)"
proof -
  have d: "rows (p_schur_form S6) = 6" "cols (p_schur_form S6) = 6" "cur_size S6 < 6"
    "(0::int) \<le> 0" "0 \<le> cur_size S6 - 3" "5 = min (cur_size S6) (0 + 4) + 1"
    by (simp_all add: S6_def)
  define st' where "st' = S6\<lparr>p_schur_form := write_block (p_schur_form S6) 0 1 5 3
              \<lparr>rows = 5, cols = 3, coeff = \<lambda>i j. coeff (p_schur_form S6) i (1 + j) + 1\<rparr>\<rparr>"
  have r: "schur_reflect_right ext_bump [] 0 3 S6 = Inr st'"
    unfolding st'_def by (rule schur_reflect_right_example)
  have inside: "coeff (p_schur_form st') 4 3 = coeff (p_schur_form S6) 4 3 + 1"
      "coeff (p_schur_form st') 0 1 = coeff (p_schur_form S6) 0 1 + 1"
    by (simp_all add: st'_def coeff_write_block_inside)
  from right_application_band[OF refl d, of ext_bump "[]"] r
  have fr: "\<forall>i j. 5 \<le> i \<or> i < 0 \<or> j < 0 + 1 \<or> 0 + 3 < j \<longrightarrow>
          coeff (p_schur_form st') i j = coeff (p_schur_form S6) i j"
    by blast
  have outside: "coeff (p_schur_form st') 5 1 = coeff (p_schur_form S6) 5 1"
    "coeff (p_schur_form st') 5 4 = coeff (p_schur_form S6) 5 4"
    "coeff (p_schur_form st') 0 0 = coeff (p_schur_form S6) 0 0"
    "coeff (p_schur_form st') 2 4 = coeff (p_schur_form S6) 2 4"
    using fr by simp_all
  have "min (cur_size S6) (0 + 4) + 1 = 5" using d(6) by simp
  with d(1-5) r inside outside show ?thesis by blast
qed

section \<open>The degenerate reflector\<close>

lemma update_coeff_same: "(\<And>i j. f i j = coeff m i j) \<Longrightarrow> m\<lparr>coeff := f\<rparr> = m"
  by (rule matrix.equality) (simp_all add: fun_eq_iff)

text \<open>
  C9. A reflector built from the zero vector, or from any multiple of the first basis
  vector, leaves every block of matching size unchanged under \<open>reflect_left\<close> and under
  \<open>reflect_right\<close>: its scaling factor is 0 and nothing is divided.
\<close>

theorem degenerate_reflector_is_identity:
  "multiple_of_first_basis (replicate k 0)
   \<and> multiple_of_first_basis (c # replicate k 0)
   \<and> (multiple_of_first_basis x \<longrightarrow>
        (rows b = int (length x) \<longrightarrow> householder_reflect_left (HouseholderReflector x) b = Inr b)
        \<and> (cols b = int (length x) \<longrightarrow> householder_reflect_right (HouseholderReflector x) b = Inr b))"
proof (intro conjI impI)
  show "multiple_of_first_basis (replicate k 0)"
    by (cases k) (simp_all add: multiple_of_first_basis_def list_all_iff)
  show "multiple_of_first_basis (c # replicate k 0)"
    by (simp add: multiple_of_first_basis_def list_all_iff)
next
  assume d: "multiple_of_first_basis x" and r: "rows b = int (length x)"
  have "b\<lparr>coeff := \<lambda>i j.
             if 0 \<le> i \<and> i < rows b \<and> 0 \<le> j \<and> j < cols b
             then coeff b i j - 0 * (x ! nat i) * (\<Sum>k\<leftarrow>[0..<length x]. x ! k * coeff b (int k) j)
             else coeff b i j\<rparr> = b"
    by (rule update_coeff_same) simp
  with d r show "householder_reflect_left (HouseholderReflector x) b = Inr b"
    by (simp add: householder_reflect_left_def HouseholderReflector_def)
next
  assume d: "multiple_of_first_basis x" and r: "cols b = int (length x)"
  have "b\<lparr>coeff := \<lambda>i j.
             if 0 \<le> i \<and> i < rows b \<and> 0 \<le> j \<and> j < cols b
             then coeff b i j - 0 * (\<Sum>k\<leftarrow>[0..<length x]. coeff b i (int k) * x ! k) * (x ! nat j)
             else coeff b i j\<rparr> = b"
    by (rule update_coeff_same) simp
  with d r show "householder_reflect_right (HouseholderReflector x) b = Inr b"
    by (simp add: householder_reflect_right_def HouseholderReflector_def)
qed

theorem degenerate_reflector_is_identity_witness:
  "multiple_of_first_basis [0, 0, 0]
   \<and> multiple_of_first_basis [2, 0, 0]
   \<and> rows T_deflated = int (length [0, 0, 0 :: real])
   \<and> cols T_deflated = int (length [0, 0, 0 :: real])
   \<and> householder_reflect_left (HouseholderReflector [0, 0, 0]) T_deflated = Inr T_deflated
   \<and> householder_reflect_right (HouseholderReflector [0, 0, 0]) T_deflated = Inr T_deflated
   \<and> householder_reflect_left (HouseholderReflector [2, 0, 0]) T_deflated = Inr T_deflated
   \<and> householder_reflect_right (HouseholderReflector [2, 0, 0]) T_deflated = Inr T_deflated"
proof -
  have m: "multiple_of_first_basis [0, 0, 0]" "multiple_of_first_basis [2, 0, 0]"
    by (simp_all add: multiple_of_first_basis_def)
  have d: "rows T_deflated = int (length [0, 0, 0 :: real])"
    "cols T_deflated = int (length [0, 0, 0 :: real])"
    "rows T_deflated = int (length [2, 0, 0 :: real])"
    "cols T_deflated = int (length [2, 0, 0 :: real])"
    by (simp_all add: T_deflated_def of_rows_def)
  from degenerate_reflector_is_identity[of 3 0 "[0, 0, 0]" T_deflated]
    degenerate_reflector_is_identity[of 3 0 "[2, 0, 0]" T_deflated] m d
  show ?thesis by blast
qed

section \<open>The sizes of the tridiagonal holder\<close>

text \<open>
  C10. Constructed with a size \<open>n \<ge> 2\<close>, a \<open>TridiagonalSymmetric\<close> has a major diagonal of
  length \<open>n\<close>, a side diagonal of length \<open>n - 1\<close> and \<open>get_size\<close> equal to \<open>n\<close>, and
  \<open>get_size\<close> stays \<open>n\<close> whatever is assigned through the accessors; a size below 2 is an
  argument error.
\<close>

theorem tridiagonal_symmetric_sizes:
  "(2 \<le> n \<longrightarrow>
      (\<exists>t. TridiagonalSymmetric fresh n = Inr t
         \<and> length (get_major_diagonal t) = nat n
         \<and> length (get_side_diagonal t) = nat n - 1
         \<and> get_size t = nat n
         \<and> (\<forall>v. get_size (assign_major_diagonal t v) = nat n
                \<and> get_size (assign_side_diagonal t v) = nat n)))
   \<and> (n < 2 \<longrightarrow> TridiagonalSymmetric fresh n = Inl InvalidArgument)"
  by (simp add: TridiagonalSymmetric_def get_major_diagonal_def get_side_diagonal_def
      get_size_def assign_major_diagonal_def assign_side_diagonal_def)

theorem tridiagonal_symmetric_sizes_witness:
  "(2::int) \<le> 3
   \<and> (\<exists>t. TridiagonalSymmetric (\<lambda>k. 0 :: real) 3 = Inr t
         \<and> length (get_major_diagonal t) = 3
         \<and> length (get_side_diagonal t) = 2
         \<and> get_size t = 3
         \<and> get_size (assign_major_diagonal t [1, 2, 3, 4]) = 3
         \<and> get_size (assign_side_diagonal t []) = 3)
   \<and> (1::int) < 2
   \<and> TridiagonalSymmetric (\<lambda>k. 0 :: real) 1 = Inl InvalidArgument"
proof -
  from tridiagonal_symmetric_sizes[of 3 "\<lambda>k. 0 :: real"]
  obtain t where t: "TridiagonalSymmetric (\<lambda>k. 0 :: real) 3 = Inr t"
    "length (get_major_diagonal t) = nat 3" "length (get_side_diagonal t) = nat 3 - 1"
    "get_size t = nat 3"
    "get_size (assign_major_diagonal t [1, 2, 3, 4]) = nat 3"
    "get_size (assign_side_diagonal t []) = nat 3"
    by auto
  from tridiagonal_symmetric_sizes[of 1 "\<lambda>k. 0 :: real"]
  have e: "TridiagonalSymmetric (\<lambda>k. 0 :: real) 1 = Inl InvalidArgument" by simp
  from t e show ?thesis by auto
qed

section \<open>What the unguarded cascade means for the relative-threshold loop\<close>

text \<open>
  When the cascade returns, the second test has read the entry
  \<open>(cur_size - 1, cur_size - 2)\<close> of the state it returns, so \<open>cur_size\<close> is still at least 2
  there: the cascade cannot bring \<open>cur_size\<close> below 2 and return. The loop of the
  relative-threshold implementation therefore returns only a state it was entered with.
\<close>

lemma try_to_deflate_returns_ge_2:
  assumes "try_to_deflate st = Inr st'"
  shows "2 \<le> cur_size st'"
  using try_to_deflate_final[OF assms] zero_under_diagonal_Inr_ge1[of st' "cur_size st' - 1" False]
  by simp

lemma QR_loop_rel_returns_step:
  fixes loop :: "('a::linordered_idom, 'b) externals \<Rightarrow> 'a schur_decomposition \<Rightarrow> (error + 'a schur_decomposition) option"
  assumes IH: "\<And>Q s y. loop Q s = Some y \<Longrightarrow> \<forall>f. y = Inr f \<longrightarrow> cur_size (snd (Q, s)) < 2"
      and eq: "(if 2 \<le> cur_size s
                then case bindE (make_QR_iteration Q s) try_to_deflate of
                       Inl e \<Rightarrow> Some (Inl e) | Inr st' \<Rightarrow> loop Q st'
                else Some (Inr s)) = Some r"
  shows "\<forall>f. r = Inr f \<longrightarrow> cur_size (snd (Q, s)) < 2"
proof (cases "2 \<le> cur_size s")
  case True
  show ?thesis
  proof (cases "bindE (make_QR_iteration Q s) try_to_deflate")
    case (Inl e)
    with True eq have "r = Inl e" by simp
    then show ?thesis by simp
  next
    case (Inr s')
    then obtain s1 where d: "try_to_deflate s1 = Inr s'"
      by (auto simp: bindE_Inr_iff)
    from Inr True eq have "loop Q s' = Some r" by simp
    from IH[OF this] try_to_deflate_returns_ge_2[OF d] show ?thesis by fastforce
  qed
next
  case False
  then show ?thesis by simp
qed

lemma QR_loop_rel_returns_only_unentered:
  assumes "QR_loop_rel P st = Some (Inr fin)"
  shows "cur_size st < 2"
proof -
  have "\<forall>f. (Inr fin :: error + 'a schur_decomposition) = Inr f \<longrightarrow> cur_size (snd (P, st)) < 2"
  proof (rule QR_loop_rel.raw_induct
      [where Pa = "\<lambda>ps r. \<forall>f. r = Inr f \<longrightarrow> cur_size (snd ps) < 2", OF _ assms])
    fix loop :: "('a, 'b) externals \<Rightarrow> 'a schur_decomposition \<Rightarrow> (error + 'a schur_decomposition) option"
    fix Q s r
    assume IH: "\<And>Q s y. loop Q s = Some y \<Longrightarrow> \<forall>f. y = Inr f \<longrightarrow> cur_size (snd (Q, s)) < 2"
      and eq: "(if 2 \<le> cur_size s
                then case bindE (make_QR_iteration Q s) try_to_deflate of
                       Inl e \<Rightarrow> Some (Inl e) | Inr st' \<Rightarrow> loop Q st'
                else Some (Inr s)) = Some r"
    from IH eq show "\<forall>f. r = Inr f \<longrightarrow> cur_size (snd (Q, s)) < 2"
      by (rule QR_loop_rel_returns_step)
  qed
  then show ?thesis by simp
qed

lemma run_QR_algorithm_rel_small_3x3:
  assumes "rows (p_schur_form st) = 3" and "cols (p_schur_form st) = 3"
    and "\<bar>coeff (p_schur_form st) 2 1\<bar>
           < precision st * (\<bar>coeff (p_schur_form st) 2 2\<bar> + \<bar>coeff (p_schur_form st) 1 1\<bar>)"
  shows "run_QR_algorithm_rel P st = Some (Inl OutOfBounds)"
proof -
  let ?st0 = "st\<lparr>cur_size := 2\<rparr>"
  have z: "zero_under_diagonal ?st0 2 = Inr True"
    using assms by (simp add: zero_under_diagonal_def get_coeff_def)
  obtain st1 where d: "decrement_cur_size ?st0 1 = Inr st1"
    using assms by (simp add: decrement_cur_size_def set_coeff_def)
  have "cur_size st1 = 1" using decrement_cur_size_cur[OF d] by simp
  then have "try_to_deflate st1 = Inl OutOfBounds" by (rule try_to_deflate_cur_1)
  with z d have "try_to_deflate ?st0 = Inl OutOfBounds"
    by (subst try_to_deflate.simps) simp
  with assms show ?thesis by (simp add: run_QR_algorithm_rel_def size_schur_def)
qed

text \<open>
  C5. \<open>cur_size\<close> never grows across the iterations of either QR loop: an iteration of the
  absolute-threshold loop leaves it as it is or lowers it by 1 or by 2, an iteration of
  the relative-threshold loop lowers it by the decrements of its cascade. Both loops are
  guarded by \<open>2 \<le> cur_size\<close>, and the absolute-threshold loop returns exactly the states
  with \<open>cur_size < 2\<close>. The relative-threshold loop does not: an iteration that returns
  leaves \<open>2 \<le> cur_size\<close>, so once entered the loop never returns a state; when
  \<open>cur_size\<close> drops below 2 the cascade reads outside the matrix instead, and on a 3 by 3
  Hessenberg form with a small entry (2, 1) the whole call fails with \<open>OutOfBounds\<close>.
\<close>

theorem cur_size_steps_and_relative_exit:
  "(QR_iteration_abs P st = Inr st1 \<longrightarrow>
      cur_size st1 = cur_size st \<or> cur_size st1 = cur_size st - 1 \<or> cur_size st1 = cur_size st - 2)
   \<and> (bindE (make_QR_iteration P st) try_to_deflate = Inr st2 \<longrightarrow>
        cur_size st2 \<le> cur_size st \<and> 2 \<le> cur_size st2)
   \<and> (QR_loop_abs P st = Some (Inr fin1) \<longrightarrow> cur_size fin1 < 2 \<and> cur_size fin1 \<le> cur_size st)
   \<and> (cur_size st < 2 \<longrightarrow> QR_loop_abs P st = Some (Inr st) \<and> QR_loop_rel P st = Some (Inr st))
   \<and> (2 \<le> cur_size st \<longrightarrow>
        QR_loop_abs P st =
          (case QR_iteration_abs P st of Inl e \<Rightarrow> Some (Inl e) | Inr st' \<Rightarrow> QR_loop_abs P st')
        \<and> QR_loop_rel P st =
          (case bindE (make_QR_iteration P st) try_to_deflate of
             Inl e \<Rightarrow> Some (Inl e) | Inr st' \<Rightarrow> QR_loop_rel P st')
        \<and> QR_loop_rel P st \<noteq> Some (Inr fin2))
   \<and> (rows data = cols data \<and> hessenberg_run P data un = Inr (T, U)
        \<and> rows T = 3 \<and> cols T = 3
        \<and> \<bar>coeff T 2 1\<bar> < precision this * (\<bar>coeff T 2 2\<bar> + \<bar>coeff T 1 1\<bar>) \<longrightarrow>
        run_rel P this data (Some sf) (Some un) = Some (Inl (Failed OutOfBounds)))"
proof -
  note g = cur_size_steps_and_guards[of P st st1 st2 fin1]
  have b: "cur_size st2 \<le> cur_size st \<and> 2 \<le> cur_size st2"
    if h: "bindE (make_QR_iteration P st) try_to_deflate = Inr st2"
  proof -
    from h obtain s1 where "try_to_deflate s1 = Inr st2" by (auto simp: bindE_Inr_iff)
    then have "2 \<le> cur_size st2" by (rule try_to_deflate_returns_ge_2)
    with g h show ?thesis by blast
  qed
  have n: "QR_loop_rel P st \<noteq> Some (Inr fin2)" if "2 \<le> cur_size st"
    using that QR_loop_rel_returns_only_unentered[of P st fin2] by fastforce
  have r: "run_rel P this data (Some sf) (Some un) = Some (Inl (Failed OutOfBounds))"
    if h: "rows data = cols data \<and> hessenberg_run P data un = Inr (T, U)
        \<and> rows T = 3 \<and> cols T = 3
        \<and> \<bar>coeff T 2 1\<bar> < precision this * (\<bar>coeff T 2 2\<bar> + \<bar>coeff T 1 1\<bar>)"
  proof -
    have "run_QR_algorithm_rel P (this\<lparr>p_schur_form := T, p_unitary := U\<rparr>) = Some (Inl OutOfBounds)"
      using h by (intro run_QR_algorithm_rel_small_3x3) simp_all
    with h show ?thesis
      by (simp add: run_rel_def set_internal_resources_def reduce_to_hessenberg_form_def
          later_phase_def)
  qed
  from g b n r show ?thesis by blast
qed

theorem cur_size_steps_and_relative_exit_witness:
  "(\<exists>st1. QR_iteration_abs ext_id (S_deflated\<lparr>cur_size := 2\<rparr>) = Inr st1
      \<and> (cur_size st1 = 2 \<or> cur_size st1 = 1 \<or> cur_size st1 = 0))
   \<and> (\<exists>st2. bindE (make_QR_iteration ext_id S4) try_to_deflate = Inr st2
      \<and> cur_size st2 \<le> 3 \<and> 2 \<le> cur_size st2)
   \<and> (\<exists>fin. QR_loop_abs ext_id (S_deflated\<lparr>cur_size := 2\<rparr>) = Some (Inr fin)
      \<and> cur_size fin < 2 \<and> cur_size fin \<le> 2)
   \<and> cur_size S_deflated < 2
   \<and> QR_loop_abs ext_id S_deflated = Some (Inr S_deflated)
   \<and> QR_loop_rel ext_id S_deflated = Some (Inr S_deflated)
   \<and> 2 \<le> cur_size S4
   \<and> QR_loop_rel ext_id S4 =
       (case bindE (make_QR_iteration ext_id S4) try_to_deflate of
          Inl e \<Rightarrow> Some (Inl e) | Inr st' \<Rightarrow> QR_loop_rel ext_id st')
   \<and> QR_loop_rel ext_id S4 \<noteq> Some (Inr S_deflated)
   \<and> rows T_deflated = cols T_deflated
   \<and> hessenberg_run ext_id T_deflated D23 = Inr (T_deflated, identity 3)
   \<and> rows T_deflated = 3 \<and> cols T_deflated = 3
   \<and> \<bar>coeff T_deflated 2 1\<bar> < precision S4 * (\<bar>coeff T_deflated 2 2\<bar> + \<bar>coeff T_deflated 1 1\<bar>)
   \<and> run_rel ext_id S4 T_deflated (Some D23) (Some D23) = Some (Inl (Failed OutOfBounds))"
proof -
  let ?S2 = "S_deflated\<lparr>cur_size := 2\<rparr>"
  obtain st1 where i1: "QR_iteration_abs ext_id ?S2 = Inr st1" and c1: "cur_size st1 = 1"
    using QR_iteration_abs_example by blast
  obtain st2 where i2: "try_to_deflate S4 = Inr st2" using try_to_deflate_example by blast
  then have i2': "bindE (make_QR_iteration ext_id S4) try_to_deflate = Inr st2"
    by (simp add: make_QR_iteration_example)
  have l1: "QR_loop_abs ext_id ?S2 = Some (Inr st1)"
    using i1 c1 by (subst QR_loop_abs.simps) (simp add: QR_loop_abs_done)
  have z: "cur_size S_deflated < 2" "cur_size ?S2 = 2" "cur_size S4 = 3"
    by (simp_all add: S_deflated_def S4_def)
  have t: "rows T_deflated = cols T_deflated"
    "hessenberg_run ext_id T_deflated D23 = Inr (T_deflated, identity 3)"
    "rows T_deflated = 3" "cols T_deflated = 3"
    "\<bar>coeff T_deflated 2 1\<bar> < precision S4 * (\<bar>coeff T_deflated 2 2\<bar> + \<bar>coeff T_deflated 1 1\<bar>)"
    by (simp_all add: T_deflated_def of_rows_def ext_id_def S4_def)
  note T1 = cur_size_steps_and_relative_exit
    [of ext_id ?S2 st1 st2 st1 S_deflated T_deflated D23 T_deflated "identity 3" S4 D23]
  have A: "cur_size st1 = 2 \<or> cur_size st1 = 1 \<or> cur_size st1 = 0"
    using T1 i1 z(2) by auto
  have B: "cur_size st1 < 2 \<and> cur_size st1 \<le> 2"
    using T1 l1 z(2) by auto
  have R: "run_rel ext_id S4 T_deflated (Some D23) (Some D23) = Some (Inl (Failed OutOfBounds))"
    using T1 t by blast
  note T2 = cur_size_steps_and_relative_exit
    [of ext_id S4 st1 st2 st1 S_deflated T_deflated D23 T_deflated "identity 3" S4 D23]
  have C: "cur_size st2 \<le> 3 \<and> 2 \<le> cur_size st2"
    using T2 i2' z(3) by auto
  have D: "QR_loop_rel ext_id S4 =
       (case bindE (make_QR_iteration ext_id S4) try_to_deflate of
          Inl e \<Rightarrow> Some (Inl e) | Inr st' \<Rightarrow> QR_loop_rel ext_id st')"
    "QR_loop_rel ext_id S4 \<noteq> Some (Inr S_deflated)"
    using T2 z(3) by auto
  note T3 = cur_size_steps_and_relative_exit
    [of ext_id S_deflated st1 st2 S_deflated S_deflated T_deflated D23 T_deflated "identity 3" S4 D23]
  have E: "QR_loop_abs ext_id S_deflated = Some (Inr S_deflated)"
    "QR_loop_rel ext_id S_deflated = Some (Inr S_deflated)"
    using T3 z(1) by blast+
  have F: "2 \<le> cur_size S4" using z(3) by simp
  from A B C D E F R i1 i2' l1 t z(1) show ?thesis by blast
qed

end
